theory Spec2Isabelle
  imports Complex_Main "HOL-Library.Sublist" "HOL-Library.AList"
begin

section \<open>Python values, exceptions and log records\<close>

text \<open>
  The integration is Python. Exceptions are values of \<open>exn\<close>; a function that may raise
  returns \<open>exn + 'a\<close> with \<open>Inl\<close> for the exception. The values found in a decoded JSON
  payload are \<open>pyval\<close>. A Python float is modelled by the rational number it denotes
  (finite floats only; rounding is not modelled). Strings are ASCII.
\<close>

datatype exn =
    ValueError | TypeError | AttributeError | KeyError | IndexError | OverflowError
  | TimeoutError | ClientError
  | InvalidApiKeyError | RequestsExceededError | KnmiApiException | ApiError
  | UpdateFailed | ConfigEntryNotReady

datatype pyval =
    PNone | PBool bool | PInt int | PFloat rat | PStr string
  | PList "pyval list" | PDict "(string \<times> pyval) list"

datatype log_entry = LogError string | LogWarning string

subsection \<open>The builtin \<open>int\<close>\<close>

text \<open>The white space that \<open>int\<close> strips from an ASCII string: tab to carriage return, and space.\<close>

definition is_space :: "char \<Rightarrow> bool" where
  "is_space c = (let n = (of_char c :: nat) in (9 \<le> n \<and> n \<le> 13) \<or> n = 32)"

definition is_digit :: "char \<Rightarrow> bool" where
  "is_digit c = (let n = (of_char c :: nat) in 48 \<le> n \<and> n \<le> 57)"

definition digit_of :: "char \<Rightarrow> int" where
  "digit_of c = int (of_char c) - 48"

text \<open>Decimal digits, single underscores allowed between two digits only.\<close>

fun parse_digits :: "bool \<Rightarrow> int \<Rightarrow> string \<Rightarrow> int option" where
  "parse_digits after_digit acc [] = (if after_digit then Some acc else None)"
| "parse_digits after_digit acc (c # cs) =
     (if is_digit c then parse_digits True (10 * acc + digit_of c) cs
      else if c = CHR ''_'' \<and> after_digit then parse_digits False acc cs
      else None)"

definition strip :: "string \<Rightarrow> string" where
  "strip s = rev (dropWhile is_space (rev (dropWhile is_space s)))"

text \<open>\<open>int(s)\<close> for a string: \<open>None\<close> stands for ValueError.\<close>

definition int_of_str :: "string \<Rightarrow> int option" where
  "int_of_str s =
     (case strip s of
        [] \<Rightarrow> None
      | c # cs \<Rightarrow>
          if c = CHR ''-'' then map_option uminus (parse_digits False 0 cs)
          else if c = CHR ''+'' then parse_digits False 0 cs
          else parse_digits False 0 (c # cs))"

text \<open>\<open>int(x)\<close> of a float truncates towards zero.\<close>

definition py_trunc :: "rat \<Rightarrow> int" where
  "py_trunc r = (if 0 \<le> r then \<lfloor>r\<rfloor> else \<lceil>r\<rceil>)"

fun py_int :: "pyval \<Rightarrow> exn + int" where
  "py_int (PStr s) = (case int_of_str s of None \<Rightarrow> Inl ValueError | Some n \<Rightarrow> Inr n)"
| "py_int (PInt n) = Inr n"
| "py_int (PBool b) = Inr (if b then 1 else 0)"
| "py_int (PFloat r) = Inr (py_trunc r)"
| "py_int PNone = Inl TypeError"
| "py_int (PList xs) = Inl TypeError"
| "py_int (PDict kvs) = Inl TypeError"

text \<open>\<open>round(x)\<close>: to the nearest integer, a tie to the even one.\<close>

definition py_round :: "rat \<Rightarrow> int" where
  "py_round r =
     (let f = \<lfloor>r\<rfloor>; d = r - of_int f
      in if d < 1 / 2 then f else if 1 / 2 < d then f + 1 else if even f then f else f + 1)"

text \<open>\<open>min(xs, key=f)\<close> on a non-empty sequence: the first element whose key is least.\<close>

fun min_by :: "('a \<Rightarrow> int) \<Rightarrow> 'a \<Rightarrow> 'a list \<Rightarrow> 'a" where
  "min_by f best [] = best"
| "min_by f best (x # xs) = min_by f (if f x < f best then x else best) xs"

section \<open>The range tables of const.py\<close>

text \<open>
  Each table is a Python dict, iterated in insertion order; it is kept as a list in
  that order. An entry keeps its key, its \<open>range\<close> pair (field \<open>band_range\<close>)
  and the labels the lookups return (the long \<open>description\<close> texts are read by no
  lookup and are left out).
\<close>

record band =
  band_key :: string
  band_range :: "int \<times> int"
  short_description :: string

record pressure_band = band +
  barometer :: string

record wind_force =
  windsnelheid_kmh :: int
  benaming :: string

definition TEMPERATURE_MAP :: "band list" where
  "TEMPERATURE_MAP =
    [\<lparr>band_key = ''-30'', band_range = (-30, -20), short_description = ''Extreem koud''\<rparr>,
     \<lparr>band_key = ''-20'', band_range = (-20, -10), short_description = ''Zeer koud''\<rparr>,
     \<lparr>band_key = ''-10'', band_range = (-10, 0), short_description = ''Erg koud''\<rparr>,
     \<lparr>band_key = ''0'', band_range = (0, 10), short_description = ''Koud''\<rparr>,
     \<lparr>band_key = ''5'', band_range = (5, 10), short_description = ''Koel tot milde kou''\<rparr>,
     \<lparr>band_key = ''10'', band_range = (10, 15), short_description = ''Fris''\<rparr>,
     \<lparr>band_key = ''15'', band_range = (15, 20), short_description = ''Aangenaam''\<rparr>,
     \<lparr>band_key = ''20'', band_range = (20, 25), short_description = ''Warm''\<rparr>,
     \<lparr>band_key = ''25'', band_range = (25, 30), short_description = ''Warm tot heet''\<rparr>,
     \<lparr>band_key = ''30'', band_range = (30, 35), short_description = ''Heet''\<rparr>,
     \<lparr>band_key = ''35'', band_range = (35, 40), short_description = ''Erg heet''\<rparr>,
     \<lparr>band_key = ''40'', band_range = (40, 50), short_description = ''Zeer heet''\<rparr>,
     \<lparr>band_key = ''50'', band_range = (50, 100), short_description = ''Extreem heet''\<rparr>]"

definition AIR_PRESSURE_MAP :: "pressure_band list" where
  "AIR_PRESSURE_MAP =
    [\<lparr>band_key = ''extreem_laag'', band_range = (900, 940), short_description = ''Extreem laag'',
        barometer = ''Orkaan''\<rparr>,
     \<lparr>band_key = ''zeer_laag'', band_range = (940, 970), short_description = ''Zeer laag'',
        barometer = ''Stormachtig''\<rparr>,
     \<lparr>band_key = ''laag'', band_range = (970, 990), short_description = ''Laag'',
        barometer = ''Regenachtig''\<rparr>,
     \<lparr>band_key = ''matig_laag'', band_range = (990, 1010), short_description = ''Matig laag'',
        barometer = ''Veranderlijk''\<rparr>,
     \<lparr>band_key = ''stabiel'', band_range = (1010, 1030), short_description = ''Stabiel'',
        barometer = ''Mooi weer''\<rparr>,
     \<lparr>band_key = ''hoog'', band_range = (1030, 1050), short_description = ''Hoog'',
        barometer = ''Droog''\<rparr>,
     \<lparr>band_key = ''zeer_hoog'', band_range = (1050, 1100), short_description = ''Zeer hoog'',
        barometer = ''Zeer droog''\<rparr>,
     \<lparr>band_key = ''extreem_hoog'', band_range = (1100, 1200), short_description = ''Extreem hoog'',
        barometer = ''Uitzonderlijk droog''\<rparr>]"

definition WIND_FORCE_MAP :: "(int \<times> wind_force) list" where
  "WIND_FORCE_MAP =
    [(0, \<lparr>windsnelheid_kmh = 0, benaming = ''Stil''\<rparr>),
     (1, \<lparr>windsnelheid_kmh = 1, benaming = ''Zwak''\<rparr>),
     (2, \<lparr>windsnelheid_kmh = 6, benaming = ''Zwak''\<rparr>),
     (3, \<lparr>windsnelheid_kmh = 12, benaming = ''Matig''\<rparr>),
     (4, \<lparr>windsnelheid_kmh = 20, benaming = ''Matig''\<rparr>),
     (5, \<lparr>windsnelheid_kmh = 29, benaming = ''Vrij krachtig''\<rparr>),
     (6, \<lparr>windsnelheid_kmh = 39, benaming = ''Krachtig''\<rparr>),
     (7, \<lparr>windsnelheid_kmh = 50, benaming = ''Hard''\<rparr>),
     (8, \<lparr>windsnelheid_kmh = 62, benaming = ''Stormachtig''\<rparr>),
     (9, \<lparr>windsnelheid_kmh = 75, benaming = ''Storm''\<rparr>),
     (10, \<lparr>windsnelheid_kmh = 89, benaming = ''Zware storm''\<rparr>),
     (11, \<lparr>windsnelheid_kmh = 103, benaming = ''Zeer zware storm''\<rparr>),
     (12, \<lparr>windsnelheid_kmh = 117, benaming = ''Orkaan''\<rparr>)]"

definition HUMIDITY_MAP :: "band list" where
  "HUMIDITY_MAP =
    [\<lparr>band_key = ''ultra_low'', band_range = (0, 10), short_description = ''Zeer laag''\<rparr>,
     \<lparr>band_key = ''very_low'', band_range = (10, 30), short_description = ''Erg laag''\<rparr>,
     \<lparr>band_key = ''low'', band_range = (30, 40), short_description = ''Laag''\<rparr>,
     \<lparr>band_key = ''comfortable'', band_range = (40, 60), short_description = ''Comfortabel''\<rparr>,
     \<lparr>band_key = ''high'', band_range = (60, 70), short_description = ''Hoog''\<rparr>,
     \<lparr>band_key = ''very_high'', band_range = (70, 90), short_description = ''Erg hoog''\<rparr>,
     \<lparr>band_key = ''ultra_high'', band_range = (90, 100), short_description = ''Zeer hoog''\<rparr>]"

definition VISIBILITY_MAP :: "band list" where
  "VISIBILITY_MAP =
    [\<lparr>band_key = ''very_poor'', band_range = (0, 1), short_description = ''Zeer slecht''\<rparr>,
     \<lparr>band_key = ''poor'', band_range = (1, 3), short_description = ''Slecht''\<rparr>,
     \<lparr>band_key = ''moderate'', band_range = (3, 5), short_description = ''Matig''\<rparr>,
     \<lparr>band_key = ''good'', band_range = (5, 10), short_description = ''Goed''\<rparr>,
     \<lparr>band_key = ''very_good'', band_range = (10, 50), short_description = ''Zeer goed''\<rparr>]"

definition WIND_DIRECTIONS_ICON_MAP :: "(int \<times> string) list" where
  "WIND_DIRECTIONS_ICON_MAP =
    [(0, ''arrow-down-thick''),
     (45, ''arrow-bottom-left-thick''),
     (90, ''arrow-left-thick''),
     (135, ''arrow-top-left-thick''),
     (180, ''arrow-up-thick''),
     (225, ''arrow-top-right-thick''),
     (270, ''arrow-right-thick''),
     (315, ''arrow-bottom-right-thick'')]"

section \<open>The lookups of entity.py and sensor.py\<close>

text \<open>
  Each lookup scans its table in order and returns at the first entry whose test
  holds; falling off the loop returns \<open>None\<close>. Temperature and pressure truncate
  the float with \<open>int\<close> and test \<open>lo <= v <= hi\<close>; humidity and visibility test
  \<open>lo <= v < hi\<close>.
\<close>

definition get_temperature_description :: "rat \<Rightarrow> string option" where
  "get_temperature_description temperature =
     map_option short_description
       (find (\<lambda>temperature_range.
                 fst (band_range temperature_range) \<le> py_trunc temperature
               \<and> py_trunc temperature \<le> snd (band_range temperature_range))
          TEMPERATURE_MAP)"

definition get_windforce_description :: "int \<Rightarrow> wind_force option" where
  "get_windforce_description windforce = map_of WIND_FORCE_MAP windforce"

definition get_air_pressure_description :: "rat \<Rightarrow> string option" where
  "get_air_pressure_description air_pressure =
     map_option short_description
       (find (\<lambda>pressure_range.
                 fst (band_range pressure_range) \<le> py_trunc air_pressure
               \<and> py_trunc air_pressure \<le> snd (band_range pressure_range))
          AIR_PRESSURE_MAP)"

definition get_air_pressure_barometer :: "rat \<Rightarrow> string option" where
  "get_air_pressure_barometer air_pressure =
     map_option barometer
       (find (\<lambda>pressure_range.
                 fst (band_range pressure_range) \<le> py_trunc air_pressure
               \<and> py_trunc air_pressure \<le> snd (band_range pressure_range))
          AIR_PRESSURE_MAP)"

definition get_humidity_description :: "int \<Rightarrow> string option" where
  "get_humidity_description humidity =
     map_option short_description
       (find (\<lambda>humidity_info.
                 fst (band_range humidity_info) \<le> humidity \<and> humidity < snd (band_range humidity_info))
          HUMIDITY_MAP)"

definition get_visibility_description :: "int \<Rightarrow> string option" where
  "get_visibility_description visibility =
     map_option short_description
       (find (\<lambda>visibility_info.
                 fst (band_range visibility_info) \<le> visibility
               \<and> visibility < snd (band_range visibility_info))
          VISIBILITY_MAP)"

text \<open>
  \<open>wind_direction_icon\<close>: the key of the icon map nearest to the bearing; when that key
  is more than 22.5 degrees away, the bearing rounded to a multiple of 45 instead; the
  icon name found under the key, or \<open>compass-outline\<close>; the result has the prefix
  \<open>mdi:\<close>.
\<close>

definition closest_direction :: "int \<Rightarrow> int" where
  "closest_direction wind_direction_degrees =
     (let direction = wind_direction_degrees mod 360;
          closest = min_by (\<lambda>angle. \<bar>direction - angle\<bar>)
                      (fst (hd WIND_DIRECTIONS_ICON_MAP)) (map fst (tl WIND_DIRECTIONS_ICON_MAP))
      in if (45 / 2 :: rat) < of_int \<bar>direction - closest\<bar>
         then py_round (of_int direction / 45) * 45
         else closest)"

definition icon_direction :: "int \<Rightarrow> string" where
  "icon_direction wind_direction_degrees =
     (case map_of WIND_DIRECTIONS_ICON_MAP (closest_direction wind_direction_degrees) of
        Some icon \<Rightarrow> icon
      | None \<Rightarrow> ''compass-outline'')"

definition wind_direction_icon :: "int \<Rightarrow> string" where
  "wind_direction_icon wind_direction_degrees =
     ''mdi:'' @ icon_direction wind_direction_degrees"

section \<open>Strings\<close>

text \<open>\<open>needle in haystack\<close> for two strings, and \<open>s.split(sep)\<close> for a one-character separator.\<close>

fun contains :: "string \<Rightarrow> string \<Rightarrow> bool" where
  "contains needle [] = (needle = [])"
| "contains needle (c # cs) = (prefix needle (c # cs) \<or> contains needle cs)"

fun split_on :: "char \<Rightarrow> string \<Rightarrow> string list" where
  "split_on sep [] = [[]]"
| "split_on sep (c # cs) =
     (if c = sep then [] # split_on sep cs
      else (case split_on sep cs of p # ps \<Rightarrow> (c # p) # ps | [] \<Rightarrow> [[c]]))"

section \<open>The API client (api.py)\<close>

text \<open>
  The state the client and the coordinator act on: the client's \<open>notification_id\<close>,
  Home Assistant's \<open>hass.data\<close> dictionary, the error and warning records logged so far,
  and the number of HTTP requests sent. \<open>hass.data\<close> holds arbitrary objects; an entry is
  either a dictionary of notifications keyed by id (a stored value may be \<open>None\<close>) or
  some other object.
\<close>

record notification =
  message :: string
  title :: string

datatype hobj = HDict "(string \<times> notification option) list" | HOther

record world =
  notification_id :: "string option"
  hass_data :: "(string \<times> hobj) list"
  logged :: "log_entry list"
  http_calls :: nat

text \<open>
  One HTTP exchange as the client sees it: the request times out, fails in the
  transport (\<open>aiohttp.ClientError\<close>, \<open>socket.gaierror\<close>), or yields a response.
  \<open>body_json\<close> is what \<open>json.loads\<close> returns on \<open>body\<close>, \<open>None\<close> where it raises
  JSONDecodeError.
\<close>

record response =
  status :: int
  content_type :: "string option"
  body :: string
  body_json :: "pyval option"

datatype transport = TimedOut | ConnectionFailed | Response response

definition log_error :: "string \<Rightarrow> 'a world_scheme \<Rightarrow> 'a world_scheme" where
  "log_error msg w = w\<lparr>logged := logged w @ [LogError msg]\<rparr>"

definition log_warning :: "string \<Rightarrow> 'a world_scheme \<Rightarrow> 'a world_scheme" where
  "log_warning msg w = w\<lparr>logged := logged w @ [LogWarning msg]\<rparr>"

text \<open>
  \<open>notification_exists\<close>: \<open>hass.data.get("persistent_notification", {})\<close>, \<open>False\<close> when
  that is not a dict, else whether \<open>notifications.get(self.notification_id)\<close> is not
  \<open>None\<close>. The keys of the dictionary are strings, so the lookup of the id \<open>None\<close> finds
  nothing.
\<close>

definition notification_exists :: "'a world_scheme \<Rightarrow> bool" where
  "notification_exists w =
     (case (case map_of (hass_data w) ''persistent_notification'' of
              None \<Rightarrow> HDict [] | Some v \<Rightarrow> v) of
        HOther \<Rightarrow> False
      | HDict notifications \<Rightarrow>
          (let existing_notification =
                 (case notification_id w of
                    None \<Rightarrow> None
                  | Some i \<Rightarrow> (case map_of notifications i of None \<Rightarrow> None | Some v \<Rightarrow> v))
           in existing_notification \<noteq> None))"

text \<open>
  Modelled from the spec: Home Assistant's notification service (\<open>async_create\<close> and
  \<open>async_dismiss\<close> of \<open>persistent_notification\<close>) is not part of the repository. The
  spec's section 6 describes it as creating and dismissing one named notice keyed by
  the id it is given; the notices are the dictionary that \<open>notification_exists\<close> reads.
  Where \<open>hass.data\<close> holds some other object under that key the service has nowhere to
  put a notice and the model leaves \<open>hass.data\<close> as it is. Both functions are plain
  callbacks: they do their work and return \<open>None\<close> (api.py calls \<open>async_create\<close> as
  such, without \<open>await\<close>).
\<close>

definition async_create_notification ::
  "(string \<times> hobj) list \<Rightarrow> string \<Rightarrow> string \<Rightarrow> string \<Rightarrow> (string \<times> hobj) list" where
  "async_create_notification hdata msg ttl nid =
     (case map_of hdata ''persistent_notification'' of
        None \<Rightarrow>
          AList.update ''persistent_notification''
            (HDict [(nid, Some \<lparr>message = msg, title = ttl\<rparr>)]) hdata
      | Some (HDict notifications) \<Rightarrow>
          AList.update ''persistent_notification''
            (HDict (AList.update nid (Some \<lparr>message = msg, title = ttl\<rparr>) notifications)) hdata
      | Some HOther \<Rightarrow> hdata)"

definition async_dismiss_notification ::
  "(string \<times> hobj) list \<Rightarrow> string \<Rightarrow> (string \<times> hobj) list" where
  "async_dismiss_notification hdata nid =
     (case map_of hdata ''persistent_notification'' of
        Some (HDict notifications) \<Rightarrow>
          AList.update ''persistent_notification'' (HDict (AList.delete nid notifications)) hdata
      | _ \<Rightarrow> hdata)"

text \<open>
  \<open>_handle_error_responses\<close>: the three markers are tested in this order on the raw
  body. The quota marker creates a notice under a fresh uuid unless
  \<open>notification_exists\<close>, and raises either way. \<open>None\<close> means that nothing was raised.
\<close>

definition handle_error_responses ::
  "string \<Rightarrow> string \<Rightarrow> 'a world_scheme \<Rightarrow> exn option \<times> 'a world_scheme" where
  "handle_error_responses uuid response_text w =
     (if contains ''Vraag eerst een API-key op'' response_text then (Some InvalidApiKeyError, w)
      else if contains ''Dagelijkse limiet'' response_text then
        (Some RequestsExceededError,
         if \<not> notification_exists w
         then w\<lparr>notification_id := Some uuid,
                hass_data :=
                  async_create_notification (hass_data w)
                    ''Het maximum aantal van 300 API verzoeken per dag voor KNMI is bereikt.''
                    ''API limiet bereikt'' uuid\<rparr>
         else w)
      else if contains ''De server ondervindt een probleem'' response_text
      then (Some KnmiApiException, w)
      else (None, w))"

definition parse_json_response :: "response \<Rightarrow> 'a world_scheme \<Rightarrow> (exn + pyval) \<times> 'a world_scheme" where
  "parse_json_response r w =
     (if content_type r \<noteq> Some ''application/json'' then (Inl ApiError, w)
      else if status r = 200 \<and> \<not> contains ''Dagelijkse limiet'' (body r) then
        (case body_json r of
           None \<Rightarrow> (Inl ApiError, log_error ''Error decoding JSON response - %s: %s'' w)
         | Some d \<Rightarrow> (Inr d, w))
      else (Inr PNone, w))"

text \<open>
  \<open>await x\<close> on a value that is no awaitable (\<open>None\<close>, a number, a string, a list, a
  dict) raises TypeError.
\<close>

definition py_await :: "pyval \<Rightarrow> exn + pyval" where
  "py_await x = Inl TypeError"

text \<open>
  \<open>_handle_notification_dismissal\<close>: with an id that \<open>notification_exists\<close>, the
  dismissal is called, its result (\<open>None\<close>) is awaited, and only then is the id cleared.
  \<open>None\<close> in the result means that nothing was raised.
\<close>

definition handle_notification_dismissal :: "'a world_scheme \<Rightarrow> exn option \<times> 'a world_scheme" where
  "handle_notification_dismissal w =
     (if notification_id w \<noteq> None \<and> notification_exists w
      then (let w1 = w\<lparr>hass_data :=
                         async_dismiss_notification (hass_data w) (the (notification_id w))\<rparr>
            in case py_await PNone of
                 Inl e \<Rightarrow> (Some e, w1)
               | Inr x \<Rightarrow> (None, w1\<lparr>notification_id := None\<rparr>))
      else (None, w))"

text \<open>\<open>x[0]\<close> and the truth value of a decoded JSON value.\<close>

fun subscript0 :: "pyval \<Rightarrow> exn + pyval" where
  "subscript0 (PList []) = Inl IndexError"
| "subscript0 (PList (x # xs)) = Inr x"
| "subscript0 (PStr []) = Inl IndexError"
| "subscript0 (PStr (c # cs)) = Inr (PStr [c])"
| "subscript0 (PDict kvs) = Inl KeyError"
| "subscript0 PNone = Inl TypeError"
| "subscript0 (PBool b) = Inl TypeError"
| "subscript0 (PInt n) = Inl TypeError"
| "subscript0 (PFloat r) = Inl TypeError"

fun truthy :: "pyval \<Rightarrow> bool" where
  "truthy PNone = False"
| "truthy (PBool b) = b"
| "truthy (PInt n) = (n \<noteq> 0)"
| "truthy (PFloat r) = (r \<noteq> 0)"
| "truthy (PStr s) = (s \<noteq> [])"
| "truthy (PList xs) = (xs \<noteq> [])"
| "truthy (PDict kvs) = (kvs \<noteq> [])"

text \<open>
  What \<open>_api_wrapper\<close> takes from the decoded body: \<open>data["liveweer"][0]\<close> when \<open>data\<close>
  is a dict with that key, and \<open>ApiError\<close> when it is not, or when the element is not
  true.
\<close>

definition first_liveweer :: "pyval \<Rightarrow> exn + pyval" where
  "first_liveweer d =
     (case d of
        PDict kvs \<Rightarrow>
          (case map_of kvs ''liveweer'' of
             None \<Rightarrow> Inl ApiError
           | Some lw \<Rightarrow>
               (case subscript0 lw of
                  Inl e \<Rightarrow> Inl e
                | Inr liveweer \<Rightarrow> if truthy liveweer then Inr liveweer else Inl ApiError))
      | _ \<Rightarrow> Inl ApiError)"

text \<open>
  The body of the \<open>try\<close> block of \<open>_api_wrapper\<close>: the request (counted), the error
  markers, the JSON decoding, the extraction of the first \<open>liveweer\<close> record and, once
  that has succeeded, the dismissal of the notice.
\<close>

definition api_try :: "string \<Rightarrow> transport \<Rightarrow> 'a world_scheme \<Rightarrow> (exn + pyval) \<times> 'a world_scheme" where
  "api_try uuid t w0 =
     (let w = w0\<lparr>http_calls := http_calls w0 + 1\<rparr> in
      case t of
        TimedOut \<Rightarrow> (Inl TimeoutError, w)
      | ConnectionFailed \<Rightarrow> (Inl ClientError, w)
      | Response r \<Rightarrow>
          (case handle_error_responses uuid (body r) w of
             (Some e, w1) \<Rightarrow> (Inl e, w1)
           | (None, w1) \<Rightarrow>
               (case parse_json_response r w1 of
                  (Inl e, w2) \<Rightarrow> (Inl e, w2)
                | (Inr d, w2) \<Rightarrow>
                    (case first_liveweer d of
                       Inl e \<Rightarrow> (Inl e, w2)
                     | Inr liveweer \<Rightarrow>
                         (case handle_notification_dismissal w2 of
                            (Some e, w3) \<Rightarrow> (Inl e, w3)
                          | (None, w3) \<Rightarrow> (Inr liveweer, w3))))))"

text \<open>
  The \<open>except\<close> clauses of \<open>_api_wrapper\<close>, in order. A timeout and a transport error are
  logged and not raised again, so the function returns \<open>None\<close>; the quota error and
  \<open>KnmiApiException\<close> are logged and raised again; every other exception (among them
  \<open>InvalidApiKeyError\<close> and \<open>ApiError\<close>, which are not subclasses of
  \<open>KnmiApiException\<close>, and the TypeError of the dismissal) matches no clause and
  propagates.
\<close>

definition api_except :: "exn \<Rightarrow> 'a world_scheme \<Rightarrow> (exn + pyval) \<times> 'a world_scheme" where
  "api_except e w =
     (if e = TimeoutError
      then (Inr PNone, log_error ''Timeout error fetching information from %s - %s'' w)
      else if e = ClientError
      then (Inr PNone, log_error ''Error fetching information from %s - %s'' w)
      else if e = RequestsExceededError
      then (Inl RequestsExceededError, log_error ''API Call Limit! - %s'' w)
      else if e = KnmiApiException
      then (Inl KnmiApiException, log_error ''Error: %s'' w)
      else (Inl e, w))"

definition api_wrapper :: "string \<Rightarrow> transport \<Rightarrow> 'a world_scheme \<Rightarrow> (exn + pyval) \<times> 'a world_scheme" where
  "api_wrapper uuid t w =
     (case api_try uuid t w of
        (Inl e, w1) \<Rightarrow> api_except e w1
      | (Inr d, w1) \<Rightarrow> (Inr d, w1))"

definition async_get_data :: "string \<Rightarrow> transport \<Rightarrow> 'a world_scheme \<Rightarrow> (exn + pyval) \<times> 'a world_scheme" where
  "async_get_data uuid t w = api_wrapper uuid t w"

section \<open>The snapshot (model.py)\<close>

text \<open>
  \<open>WeatherData(**data)\<close> is a dataclass with these fields and no defaults: the call
  raises TypeError unless \<open>data\<close> is a mapping whose keys are exactly the field names.
  The object keeps the values as they came. A snapshot is kept as the list of its
  fields and values.
\<close>

definition weather_fields :: "string list" where
  "weather_fields =
    [''plaats'', ''timestamp'', ''time'', ''temp'', ''gtemp'', ''samenv'', ''lv'', ''windr'',
     ''windrgr'', ''windms'', ''winds'', ''windk'', ''windkmh'', ''luchtd'', ''ldmmhg'',
     ''dauwp'', ''zicht'', ''verw'', ''sup'', ''sunder'', ''image'',
     ''d0weer'', ''d0tmax'', ''d0tmin'', ''d0windk'', ''d0windknp'', ''d0windms'',
     ''d0windkmh'', ''d0windr'', ''d0windrgr'', ''d0neerslag'', ''d0zon'',
     ''d1weer'', ''d1tmax'', ''d1tmin'', ''d1windk'', ''d1windknp'', ''d1windms'',
     ''d1windkmh'', ''d1windr'', ''d1windrgr'', ''d1neerslag'', ''d1zon'',
     ''d2weer'', ''d2tmax'', ''d2tmin'', ''d2windk'', ''d2windknp'', ''d2windms'',
     ''d2windkmh'', ''d2windr'', ''d2windrgr'', ''d2neerslag'', ''d2zon'',
     ''alarm'', ''alarmtxt'']"

definition WeatherData :: "pyval \<Rightarrow> exn + (string \<times> pyval) list" where
  "WeatherData d =
     (case d of
        PDict kvs \<Rightarrow>
          if list_all (\<lambda>f. f \<in> set (map fst kvs)) weather_fields
             \<and> list_all (\<lambda>k. k \<in> set weather_fields) (map fst kvs)
          then Inr kvs else Inl TypeError
      | _ \<Rightarrow> Inl TypeError)"

section \<open>The coordinator (coordinator.py)\<close>

text \<open>
  A \<open>datetime\<close> is the number of microseconds on the local time line, so that
  \<open>timedelta(seconds=n)\<close> is \<open>n * 1000000\<close>. \<open>datetime.fromtimestamp\<close> depends on the
  platform and its time zone, and raises on an instant it cannot hold (ValueError for a
  year outside 1 to 9999, OverflowError or OSError beyond what the C library converts):
  it is an input of the model, see \<open>env\<close>.

  The coordinator holds the client and \<open>hass\<close> (the \<open>world\<close> part), its \<open>data\<close> (\<open>None\<close>
  before the first refresh), \<open>last_update_time\<close>, \<open>_timestamp\<close>, \<open>refresh_interval\<close>,
  the \<open>update_interval\<close> (seconds) handed to the framework, and the refresh tasks it
  has created with \<open>asyncio.create_task\<close>. A task is kept with the clock reading at
  which it was created and the delay it sleeps; nothing in the code cancels a task.
\<close>

definition timedelta_seconds :: "int \<Rightarrow> int" where
  "timedelta_seconds n = n * 1000000"

definition DATA_REFRESH_INTERVAL :: int where
  "DATA_REFRESH_INTERVAL = 600"

record task =
  armed_at :: int
  delay :: int

record coordinator = world +
  data :: "(string \<times> pyval) list option"
  last_update_time :: "int option"
  timestamp_int :: "int option"
  refresh_interval :: int
  update_interval :: int
  tasks :: "task list"

text \<open>
  What one call of \<open>_async_update_data\<close> reads from outside: the clock at the
  freshness test, in the fallback of \<open>_update_timestamp\<close> and in
  \<open>_schedule_next_update\<close>; the outcome of the HTTP exchange, should one be made; the
  next \<open>uuid.uuid4()\<close>; the platform's \<open>datetime.fromtimestamp\<close>; and the next draw of
  the random generator.
\<close>

record env =
  now_gate :: int
  now_fallback :: int
  now_schedule :: int
  http :: transport
  uuid4 :: string
  fromtimestamp :: "int \<Rightarrow> exn + int"
  random_draw :: nat

text \<open>
  \<open>random.randint(a, b)\<close> returns an integer \<open>N\<close> with \<open>a <= N <= b\<close>; which one is
  decided by the generator's draw.
\<close>

definition randint :: "int \<Rightarrow> int \<Rightarrow> nat \<Rightarrow> int" where
  "randint a b draw = a + int (draw mod nat (b - a + 1))"

definition is_update_interval_passed :: "int \<Rightarrow> coordinator \<Rightarrow> bool" where
  "is_update_interval_passed now c =
     (case last_update_time c of
        None \<Rightarrow> True
      | Some t \<Rightarrow> t + timedelta_seconds 600 \<le> now)"

text \<open>
  \<open>_update_timestamp\<close>: a dataclass instance is always true; a \<open>timestamp\<close> of \<open>None\<close>
  changes nothing; \<open>_timestamp\<close> is assigned between \<open>int(timestamp)\<close> and
  \<open>datetime.fromtimestamp\<close>; a ValueError of either is logged as a warning and sets
  \<open>last_update_time\<close> to the current time and \<open>_timestamp\<close> to \<open>None\<close>; any other
  exception propagates. \<open>None\<close> in the result means that nothing was raised.
\<close>

definition timestamp_fallback :: "env \<Rightarrow> coordinator \<Rightarrow> coordinator" where
  "timestamp_fallback e c =
     (log_warning ''Invalid timestamp format: %s'' c)
       \<lparr>last_update_time := Some (now_fallback e), timestamp_int := None\<rparr>"

definition update_timestamp :: "env \<Rightarrow> (string \<times> pyval) list \<Rightarrow> coordinator \<Rightarrow> exn option \<times> coordinator" where
  "update_timestamp e wd c =
     (case map_of wd ''timestamp'' of
        None \<Rightarrow> (Some AttributeError, c)
      | Some PNone \<Rightarrow> (None, c)
      | Some ts \<Rightarrow>
          (case py_int ts of
             Inl ex \<Rightarrow> if ex = ValueError then (None, timestamp_fallback e c) else (Some ex, c)
           | Inr timestamp_int' \<Rightarrow>
               (let c1 = c\<lparr>timestamp_int := Some timestamp_int'\<rparr> in
                case fromtimestamp e timestamp_int' of
                  Inr t \<Rightarrow> (None, c1\<lparr>last_update_time := Some t\<rparr>)
                | Inl ex \<Rightarrow>
                    if ex = ValueError then (None, timestamp_fallback e c1) else (Some ex, c1))))"

text \<open>
  \<open>_schedule_next_update\<close>: with \<open>last_update_time\<close> set and
  \<open>next_update_time > now\<close>, \<open>random.randint(1, 60)\<close> is drawn and a task is created
  that sleeps \<open>(next_update_time - now) + random_time\<close> and then requests a refresh.
\<close>

definition schedule_next_update :: "int \<Rightarrow> nat \<Rightarrow> coordinator \<Rightarrow> coordinator" where
  "schedule_next_update now draw c =
     (case last_update_time c of
        None \<Rightarrow> c
      | Some t \<Rightarrow>
          (let next_update_time = t + timedelta_seconds (refresh_interval c)
           in if now < next_update_time
              then (let random_time = randint 1 60 draw
                    in c\<lparr>tasks := tasks c @
                          [\<lparr>armed_at = now,
                            delay = (next_update_time - now) + timedelta_seconds random_time\<rparr>]\<rparr>)
              else c))"

text \<open>
  \<open>_async_update_data\<close>. Inside the \<open>try\<close>, any exception is logged and turned into
  \<open>UpdateFailed\<close>; what was assigned before the exception stays assigned. The result on
  success is the fetched mapping, which the framework then stores as \<open>data\<close>; it holds
  the same fields as the \<open>WeatherData\<close> built from it, so both are the one snapshot
  here.
\<close>

definition update_failed :: "coordinator \<Rightarrow> (exn + (string \<times> pyval) list option) \<times> coordinator" where
  "update_failed c = (Inl UpdateFailed, log_error ''Error fetching KNMI data: %s'' c)"

definition async_update_data :: "env \<Rightarrow> coordinator \<Rightarrow> (exn + (string \<times> pyval) list option) \<times> coordinator" where
  "async_update_data e c =
     (if last_update_time c = None \<or> is_update_interval_passed (now_gate e) c then
        (case async_get_data (uuid4 e) (http e) c of
           (Inl ex, c1) \<Rightarrow> update_failed c1
         | (Inr d, c1) \<Rightarrow>
             (case WeatherData d of
                Inl ex \<Rightarrow> update_failed c1
              | Inr weather_data \<Rightarrow>
                  (let c2 = c1\<lparr>data := Some weather_data\<rparr> in
                   case update_timestamp e weather_data c2 of
                     (Some ex, c3) \<Rightarrow> update_failed c3
                   | (None, c3) \<Rightarrow>
                       (Inr (Some weather_data),
                        schedule_next_update (now_schedule e) (random_draw e) c3))))
      else (Inr (data c), c))"

text \<open>
  Modelled from the spec: \<open>asyncio.sleep\<close> and the framework's \<open>async_request_refresh\<close>
  are not part of the repository. By the spec's section 4.2.1 the timer fires once its
  delay has passed and then requests a refresh, which runs \<open>_async_update_data\<close>.
  This is the body of a task, \<open>await asyncio.sleep(delay)\<close> followed by
  \<open>await self.async_request_refresh()\<close>; \<open>None\<close> stands for a clock reading at which the
  task still sleeps.
\<close>

definition task_refresh ::
  "task \<Rightarrow> env \<Rightarrow> coordinator \<Rightarrow> ((exn + (string \<times> pyval) list option) \<times> coordinator) option" where
  "task_refresh k e c =
     (if armed_at k + delay k \<le> now_gate e then Some (async_update_data e c) else None)"

text \<open>
  \<open>get_value\<close>. The \<open>try\<close> catches ValueError only. \<open>key in self.data\<close> raises TypeError
  while \<open>data\<close> is \<open>None\<close>. For a key that contains one of the four names, \<open>"/" in value\<close>
  is evaluated first (a TypeError for a value that is no container); a string with a
  slash is split and both parts go through \<open>int\<close> (every failure of the unpacking is a
  ValueError); \<open>(numerator + denominator) / 2\<close> is a float, or an OverflowError.
\<close>

definition is_range_key :: "string \<Rightarrow> bool" where
  "is_range_key key =
     (contains ''d1tmin'' key \<or> contains ''d1tmax'' key \<or> contains ''d2tmin'' key
      \<or> contains ''d2tmax'' key)"

fun slash_in :: "pyval \<Rightarrow> exn + bool" where
  "slash_in (PStr s) = Inr (CHR ''/'' \<in> set s)"
| "slash_in (PList xs) = Inr (PStr ''/'' \<in> set xs)"
| "slash_in (PDict kvs) = Inr (''/'' \<in> set (map fst kvs))"
| "slash_in PNone = Inl TypeError"
| "slash_in (PBool b) = Inl TypeError"
| "slash_in (PInt n) = Inl TypeError"
| "slash_in (PFloat r) = Inl TypeError"

definition unpack_ints :: "string list \<Rightarrow> exn + int \<times> int" where
  "unpack_ints parts =
     (case parts of
        [a, b] \<Rightarrow>
          (case int_of_str a of
             None \<Rightarrow> Inl ValueError
           | Some numerator \<Rightarrow>
               (case int_of_str b of
                  None \<Rightarrow> Inl ValueError
                | Some denominator \<Rightarrow> Inr (numerator, denominator)))
      | _ \<Rightarrow> Inl ValueError)"

text \<open>
  \<open>a / b\<close> on two ints and \<open>float(n)\<close> raise OverflowError when the rounded result would
  not be a finite float, which is from \<open>2^1024 - 2^970\<close> on.
\<close>

definition float_overflow :: "rat \<Rightarrow> bool" where
  "float_overflow q = (2 ^ 1024 - 2 ^ 970 \<le> \<bar>q\<bar>)"

definition range_value :: "pyval \<Rightarrow> exn + pyval" where
  "range_value v =
     (case v of
        PStr s \<Rightarrow>
          (case unpack_ints (split_on CHR ''/'' s) of
             Inl e \<Rightarrow> Inl e
           | Inr (numerator, denominator) \<Rightarrow>
               if float_overflow (of_int (numerator + denominator) / 2)
               then Inl OverflowError
               else Inr (PFloat (of_int (numerator + denominator) / 2)))
      | _ \<Rightarrow> Inl AttributeError)"

definition get_value_try :: "pyval \<Rightarrow> string \<Rightarrow> (pyval \<Rightarrow> exn + pyval) \<Rightarrow> exn + pyval" where
  "get_value_try v key convert_to =
     (if is_range_key key then
        (case slash_in v of
           Inl e \<Rightarrow> Inl e
         | Inr True \<Rightarrow> (case range_value v of Inl e \<Rightarrow> Inl e | Inr m \<Rightarrow> convert_to m)
         | Inr False \<Rightarrow> convert_to v)
      else convert_to v)"

text \<open>
  The \<open>except ValueError\<close> clause of \<open>get_value\<close>: a ValueError becomes \<open>None\<close> with a
  warning, any other exception propagates.
\<close>

definition except_value_error :: "exn + pyval \<Rightarrow> (exn + pyval) \<times> log_entry list" where
  "except_value_error r =
     (case r of
        Inl e \<Rightarrow>
          if e = ValueError
          then (Inr PNone, [LogWarning ''Value %s with key %s can't be converted to %s''])
          else (Inl e, [])
      | Inr x \<Rightarrow> (Inr x, []))"

definition get_value ::
  "(string \<times> pyval) list option \<Rightarrow> string \<Rightarrow> (pyval \<Rightarrow> exn + pyval)
     \<Rightarrow> (exn + pyval) \<times> log_entry list" where
  "get_value dat key convert_to =
     (case dat of
        None \<Rightarrow> (Inl TypeError, [])
      | Some kvs \<Rightarrow>
          (case map_of kvs key of
             Some v \<Rightarrow> except_value_error (get_value_try v key convert_to)
           | None \<Rightarrow> (Inr PNone, [LogWarning ''Value %s is missing in API response''])))"

text \<open>
  The conversions the entities pass are \<open>int\<close>, \<open>float\<close> and \<open>str\<close>. For \<open>float\<close> the
  reading of a string is left open: \<open>float_of_str\<close> gives the number a string denotes,
  \<open>None\<close> where \<open>float\<close> raises ValueError on it.
\<close>

definition conv_int :: "pyval \<Rightarrow> exn + pyval" where
  "conv_int v = (case py_int v of Inl e \<Rightarrow> Inl e | Inr n \<Rightarrow> Inr (PInt n))"

fun py_float :: "(string \<Rightarrow> rat option) \<Rightarrow> pyval \<Rightarrow> exn + pyval" where
  "py_float float_of_str (PFloat r) = Inr (PFloat r)"
| "py_float float_of_str (PInt n) =
     (if float_overflow (of_int n) then Inl OverflowError else Inr (PFloat (of_int n)))"
| "py_float float_of_str (PBool b) = Inr (PFloat (if b then 1 else 0))"
| "py_float float_of_str (PStr s) =
     (case float_of_str s of None \<Rightarrow> Inl ValueError | Some r \<Rightarrow> Inr (PFloat r))"
| "py_float float_of_str PNone = Inl TypeError"
| "py_float float_of_str (PList xs) = Inl TypeError"
| "py_float float_of_str (PDict kvs) = Inl TypeError"

section \<open>Setting up (coordinator.py, __init__.py)\<close>

text \<open>
  \<open>_get_refresh_interval\<close> reads the options of the config entry, then the
  coordinator's own \<open>options\<close> (the class attribute, \<open>None\<close>), and ends with
  \<open>DATA_REFRESH_INTERVAL\<close>; the value it reads from \<open>hass.data\<close> is only logged.
  \<open>__init__\<close> stores the result as \<open>refresh_interval\<close> and as the framework's
  \<open>update_interval\<close>. \<open>async_setup_entry\<close> builds the client (no notification id) and
  the coordinator, then reads \<open>entry.options.get("refresh_interval", 300)\<close> and, when
  that is true (not zero), assigns it to the coordinator's \<open>refresh_interval\<close>.
\<close>

definition get_refresh_interval ::
  "(string \<times> int) list \<Rightarrow> (string \<times> int) list option \<Rightarrow> int" where
  "get_refresh_interval entry_options self_options =
     (case map_of entry_options ''refresh_interval'' of
        Some r \<Rightarrow> r
      | None \<Rightarrow>
          (case (case self_options of None \<Rightarrow> None | Some opts \<Rightarrow> map_of opts ''refresh_interval'') of
             Some r \<Rightarrow> r
           | None \<Rightarrow>
               (case map_of entry_options ''refresh_interval'' of
                  Some r \<Rightarrow> r
                | None \<Rightarrow> DATA_REFRESH_INTERVAL)))"

definition init_coordinator :: "(string \<times> int) list \<Rightarrow> (string \<times> hobj) list \<Rightarrow> coordinator" where
  "init_coordinator entry_options hdata =
     \<lparr>notification_id = None, hass_data = hdata, logged = [], http_calls = 0,
      data = None, last_update_time = None, timestamp_int = None,
      refresh_interval = get_refresh_interval entry_options None,
      update_interval = get_refresh_interval entry_options None,
      tasks = []\<rparr>"

definition setup_coordinator :: "(string \<times> int) list \<Rightarrow> (string \<times> hobj) list \<Rightarrow> coordinator" where
  "setup_coordinator entry_options hdata =
     (let coordinator = init_coordinator entry_options hdata;
          refresh_interval' =
            (case map_of entry_options ''refresh_interval'' of Some r \<Rightarrow> r | None \<Rightarrow> 300)
      in if refresh_interval' \<noteq> 0
         then coordinator\<lparr>refresh_interval := refresh_interval'\<rparr>
         else coordinator)"

text \<open>
  The rest of \<open>async_setup_entry\<close>: the first refresh, whose failure the framework
  raises as \<open>ConfigEntryNotReady\<close>.
\<close>

definition async_setup_entry ::
  "env \<Rightarrow> (string \<times> int) list \<Rightarrow> (string \<times> hobj) list \<Rightarrow> (exn + bool) \<times> coordinator" where
  "async_setup_entry e entry_options hdata =
     (case async_update_data e (setup_coordinator entry_options hdata) of
        (Inl ex, c) \<Rightarrow> (Inl ConfigEntryNotReady, c)
      | (Inr d, c) \<Rightarrow> (Inr True, c))"

section \<open>Runs and sample data\<close>

text \<open>
  The notices that are live: the ids stored with a notification in the dictionary that
  \<open>notification_exists\<close> reads. A run of the client is a list of exchanges, each with
  the uuid the client would draw.
\<close>

definition live_notices :: "'a world_scheme \<Rightarrow> string set" where
  "live_notices w =
     (case map_of (hass_data w) ''persistent_notification'' of
        Some (HDict notifications) \<Rightarrow> {i. \<exists>n. map_of notifications i = Some (Some n)}
      | _ \<Rightarrow> {})"

text \<open>
  No notice is live beyond those of \<open>L\<close> and the one the client holds the id of.
\<close>

definition at_most_own :: "string set \<Rightarrow> 'a world_scheme \<Rightarrow> bool" where
  "at_most_own L w = (live_notices w \<subseteq> L \<union> set_option (notification_id w))"

fun fetches :: "(string \<times> transport) list \<Rightarrow> 'a world_scheme \<Rightarrow> 'a world_scheme" where
  "fetches [] w = w"
| "fetches ((uuid, t) # rest) w = fetches rest (snd (api_wrapper uuid t w))"

definition quota_exceeded :: "string \<Rightarrow> bool" where
  "quota_exceeded response_text =
     (\<not> contains ''Vraag eerst een API-key op'' response_text
      \<and> contains ''Dagelijkse limiet'' response_text)"

text \<open>The sample payload \<open>testdata\<close> of entity.py, and a response that carries it.\<close>

definition testdata_liveweer :: "(string \<times> pyval) list" where
  "testdata_liveweer =
    [(''plaats'', PStr ''Schagen''),
     (''timestamp'', PStr ''1689469384''),
     (''time'', PStr ''16-07-2023 03:03''),
     (''temp'', PStr ''18.1''),
     (''gtemp'', PStr ''15.5''),
     (''samenv'', PStr ''Zwaar bewolkt''),
     (''lv'', PStr ''69''),
     (''windr'', PStr ''ZW''),
     (''windrgr'', PStr ''225''),
     (''windms'', PStr ''13''),
     (''winds'', PStr ''6''),
     (''windk'', PStr ''25.3''),
     (''windkmh'', PStr ''46.8''),
     (''luchtd'', PStr ''1004.7''),
     (''ldmmhg'', PStr ''754''),
     (''dauwp'', PStr ''12''),
     (''zicht'', PStr ''20''),
     (''verw'', PStr ''Vandaag onstuimig, maandag enkele buien''),
     (''sup'', PStr ''05:33''),
     (''sunder'', PStr ''22:00''),
     (''image'', PStr ''nachtbewolkt''),
     (''d0weer'', PStr ''halfbewolkt''),
     (''d0tmax'', PStr ''19''),
     (''d0tmin'', PStr ''17''),
     (''d0windk'', PStr ''6''),
     (''d0windknp'', PStr ''25''),
     (''d0windms'', PStr ''13''),
     (''d0windkmh'', PStr ''46''),
     (''d0windr'', PStr ''ZW''),
     (''d0windrgr'', PStr ''225''),
     (''d0neerslag'', PStr ''33''),
     (''d0zon'', PStr ''57''),
     (''d1weer'', PStr ''halfbewolkt''),
     (''d1tmax'', PStr ''23''),
     (''d1tmin'', PStr ''14''),
     (''d1windk'', PStr ''3''),
     (''d1windknp'', PStr ''8''),
     (''d1windms'', PStr ''4''),
     (''d1windkmh'', PStr ''15''),
     (''d1windr'', PStr ''ZW''),
     (''d1windrgr'', PStr ''225''),
     (''d1neerslag'', PStr ''40''),
     (''d1zon'', PStr ''40''),
     (''d2weer'', PStr ''halfbewolkt''),
     (''d2tmax'', PStr ''22''),
     (''d2tmin'', PStr ''14''),
     (''d2windk'', PStr ''3''),
     (''d2windknp'', PStr ''8''),
     (''d2windms'', PStr ''4''),
     (''d2windkmh'', PStr ''15''),
     (''d2windr'', PStr ''ZW''),
     (''d2windrgr'', PStr ''225''),
     (''d2neerslag'', PStr ''30''),
     (''d2zon'', PStr ''40''),
     (''alarm'', PStr ''1''),
     (''alarmtxt'', PStr ''Aanvankelijk zijn er geen waarschuwingen van kracht.  In de nacht naar zondag en zondagochtend is er aan zee en in het Waddengebied kans op zware windstoten van 75-90 km/u, met mogelijk hinder voor verkeer en buitenactiviteiten.  De wind waait uit het zuidwesten en neemt in de tweede helft van zondagochtend weer iets af.'')]"

text \<open>
  The JSON text of the sample payload, cut around the value of \<open>timestamp\<close>, so that
  the same payload can be written with another timestamp.
\<close>

definition testdata_body_prefix :: string where
  \<open>testdata_body_prefix =
    ''{"liveweer": [{"plaats": "Schagen", "timestamp": ''\<close>

definition testdata_body_suffix :: string where
  \<open>testdata_body_suffix =
    '', "time": "16-07-2023 03:03", "temp": "18.1", "gtemp": "15.5", "samenv": "Zwaar bewolkt", "lv": "69", "windr": "ZW", "windrgr": "225", "windms": "13", "winds": "6", "windk": "25.3", "windkmh": "46.8", "luchtd": "1004.7", "ldmmhg": "754", "dauwp": "12", "zicht": "20", "verw": "Vandaag onstuimig, maandag enkele buien", "sup": "05:33", "sunder": "22:00", "image": "nachtbewolkt", "d0weer": "halfbewolkt", "d0tmax": "19", "d0tmin": "17", "d0windk": "6", "d0windknp": "25", "d0windms": "13", "d0windkmh": "46", "d0windr": "ZW", "d0windrgr": "225", "d0neerslag": "33", "d0zon": "57", "d1weer": "halfbewolkt", "d1tmax": "23", "d1tmin": "14", "d1windk": "3", "d1windknp": "8", "d1windms": "4", "d1windkmh": "15", "d1windr": "ZW", "d1windrgr": "225", "d1neerslag": "40", "d1zon": "40", "d2weer": "halfbewolkt", "d2tmax": "22", "d2tmin": "14", "d2windk": "3", "d2windknp": "8", "d2windms": "4", "d2windkmh": "15", "d2windr": "ZW", "d2windrgr": "225", "d2neerslag": "30", "d2zon": "40", "alarm": "1", "alarmtxt": "Aanvankelijk zijn er geen waarschuwingen van kracht.  In de nacht naar zondag en zondagochtend is er aan zee en in het Waddengebied kans op zware windstoten van 75-90 km/u, met mogelijk hinder voor verkeer en buitenactiviteiten.  De wind waait uit het zuidwesten en neemt in de tweede helft van zondagochtend weer iets af."}]}''\<close>

definition testdata_body_with :: "string \<Rightarrow> string" where
  "testdata_body_with timestamp_json = testdata_body_prefix @ timestamp_json @ testdata_body_suffix"

definition testdata_body :: string where
  \<open>testdata_body = testdata_body_with ''"1689469384"''\<close>

definition testdata :: pyval where
  "testdata = PDict [(''liveweer'', PList [PDict testdata_liveweer])]"

definition testdata_response :: response where
  "testdata_response =
     \<lparr>status = 200, content_type = Some ''application/json'', body = testdata_body,
      body_json = Some testdata\<rparr>"

text \<open>
  The sample payload with another value of \<open>timestamp\<close>, given as JSON text and as
  the value it decodes to.
\<close>

definition testdata_liveweer_with :: "pyval \<Rightarrow> (string \<times> pyval) list" where
  "testdata_liveweer_with ts = AList.update ''timestamp'' ts testdata_liveweer"

definition testdata_response_with :: "string \<Rightarrow> pyval \<Rightarrow> response" where
  "testdata_response_with timestamp_json ts =
     \<lparr>status = 200, content_type = Some ''application/json'',
      body = testdata_body_with timestamp_json,
      body_json = Some (PDict [(''liveweer'', PList [PDict (testdata_liveweer_with ts)])])\<rparr>"

definition quota_response :: response where
  "quota_response =
     \<lparr>status = 200, content_type = Some ''text/html'',
      body = ''Dagelijkse limiet overschreden'', body_json = None\<rparr>"

text \<open>
  The clock of the sample runs counts the seconds of the payload's timestamps, and their
  \<open>datetime.fromtimestamp\<close> is that of a platform on UTC with a 64-bit \<open>time_t\<close>: the
  instant itself for the years 1 to 9999, ValueError for a year outside them, and an
  error that is no ValueError (OverflowError, or OSError, which the code treats alike)
  where the C library cannot convert the instant.
\<close>

definition datetime_at :: "int \<Rightarrow> int" where
  "datetime_at n = n * 1000000"

definition sample_fromtimestamp :: "int \<Rightarrow> exn + int" where
  "sample_fromtimestamp n =
     (if - 62135596800 \<le> n \<and> n \<le> 253402300799 then Inr (datetime_at n)
      else if - 67768040609740800 \<le> n \<and> n \<le> 67768036191676799 then Inl ValueError
      else Inl OverflowError)"

definition fresh_env :: env where
  "fresh_env =
     \<lparr>now_gate = datetime_at 1689469500, now_fallback = datetime_at 1689469501,
      now_schedule = datetime_at 1689469502, http = Response testdata_response,
      uuid4 = ''9f1c2a6e-0b43-4c8e-9d57-3a5e7b1c2d40'',
      fromtimestamp = sample_fromtimestamp, random_draw = 16\<rparr>"

text \<open>
  The coordinator as the first refresh of a new entry leaves it when the sample payload
  is fetched under \<open>fresh_env\<close>.
\<close>

definition loaded_coordinator :: coordinator where
  "loaded_coordinator =
     \<lparr>notification_id = None, hass_data = [], logged = [], http_calls = 1,
      data = Some testdata_liveweer, last_update_time = Some (datetime_at 1689469384),
      timestamp_int = Some 1689469384, refresh_interval = 300, update_interval = 600,
      tasks = [\<lparr>armed_at = datetime_at 1689469502, delay = 199000000\<rparr>]\<rparr>"





definition later_response :: response where
  \<open>later_response = testdata_response_with ''"1689469984"'' (PStr ''1689469984'')\<close>

text \<open>
  A run in which a task outlives a later refresh. The operator has set
  \<open>refresh_interval\<close> to 1300 seconds. The first refresh fetches the sample payload and
  creates a task; a second refresh, requested 500 seconds later, fetches the payload
  that the provider issued 600 seconds after the first; \<open>wake_env\<close> is the moment at
  which the sleep of the first task is over.
\<close>

definition first_run :: coordinator where
  "first_run = snd (async_update_data fresh_env (setup_coordinator [(''refresh_interval'', 1300)] []))"

definition second_env :: env where
  "second_env =
     \<lparr>now_gate = datetime_at 1689470000, now_fallback = datetime_at 1689470001,
      now_schedule = datetime_at 1689470002, http = Response later_response,
      uuid4 = ''57b0b6a1-8a52-4f0e-8c1d-0d7c1f7a9e11'',
      fromtimestamp = sample_fromtimestamp, random_draw = 40\<rparr>"

definition second_run :: coordinator where
  "second_run = snd (async_update_data second_env first_run)"

definition wake_env :: env where
  "wake_env =
     second_env\<lparr>now_gate := datetime_at 1689470701, now_fallback := datetime_at 1689470702,
                 now_schedule := datetime_at 1689470703\<rparr>"

section \<open>The range lookups\<close>

text \<open>Each lookup as a chain of tests on the looked-up number, read off its table.\<close>

lemma temperature_by_trunc:
  "get_temperature_description t =
     (let k = py_trunc t in
      if -30 \<le> k \<and> k \<le> -20 then Some ''Extreem koud''
      else if -20 < k \<and> k \<le> -10 then Some ''Zeer koud''
      else if -10 < k \<and> k \<le> 0 then Some ''Erg koud''
      else if 0 < k \<and> k \<le> 10 then Some ''Koud''
      else if 10 < k \<and> k \<le> 15 then Some ''Fris''
      else if 15 < k \<and> k \<le> 20 then Some ''Aangenaam''
      else if 20 < k \<and> k \<le> 25 then Some ''Warm''
      else if 25 < k \<and> k \<le> 30 then Some ''Warm tot heet''
      else if 30 < k \<and> k \<le> 35 then Some ''Heet''
      else if 35 < k \<and> k \<le> 40 then Some ''Erg heet''
      else if 40 < k \<and> k \<le> 50 then Some ''Zeer heet''
      else if 50 < k \<and> k \<le> 100 then Some ''Extreem heet''
      else None)"
  by (simp add: get_temperature_description_def TEMPERATURE_MAP_def Let_def)

lemma pressure_by_trunc:
  "get_air_pressure_description p =
     (let k = py_trunc p in
      if 900 \<le> k \<and> k \<le> 940 then Some ''Extreem laag''
      else if 940 < k \<and> k \<le> 970 then Some ''Zeer laag''
      else if 970 < k \<and> k \<le> 990 then Some ''Laag''
      else if 990 < k \<and> k \<le> 1010 then Some ''Matig laag''
      else if 1010 < k \<and> k \<le> 1030 then Some ''Stabiel''
      else if 1030 < k \<and> k \<le> 1050 then Some ''Hoog''
      else if 1050 < k \<and> k \<le> 1100 then Some ''Zeer hoog''
      else if 1100 < k \<and> k \<le> 1200 then Some ''Extreem hoog''
      else None)"
  by (simp add: get_air_pressure_description_def AIR_PRESSURE_MAP_def Let_def)

lemma humidity_bands:
  "get_humidity_description h =
     (if 0 \<le> h \<and> h < 10 then Some ''Zeer laag''
      else if 10 \<le> h \<and> h < 30 then Some ''Erg laag''
      else if 30 \<le> h \<and> h < 40 then Some ''Laag''
      else if 40 \<le> h \<and> h < 60 then Some ''Comfortabel''
      else if 60 \<le> h \<and> h < 70 then Some ''Hoog''
      else if 70 \<le> h \<and> h < 90 then Some ''Erg hoog''
      else if 90 \<le> h \<and> h < 100 then Some ''Zeer hoog''
      else None)"
  by (simp add: get_humidity_description_def HUMIDITY_MAP_def)

lemma visibility_bands:
  "get_visibility_description v =
     (if 0 \<le> v \<and> v < 1 then Some ''Zeer slecht''
      else if 1 \<le> v \<and> v < 3 then Some ''Slecht''
      else if 3 \<le> v \<and> v < 5 then Some ''Matig''
      else if 5 \<le> v \<and> v < 10 then Some ''Goed''
      else if 10 \<le> v \<and> v < 50 then Some ''Zeer goed''
      else None)"
  by (simp add: get_visibility_description_def VISIBILITY_MAP_def)

lemma erg_koud_iff:
  "(get_temperature_description t = Some ''Erg koud'') = (-10 < py_trunc t \<and> py_trunc t \<le> 0)"
  unfolding temperature_by_trunc Let_def by (simp split: if_splits)

lemma zeer_koud_iff:
  "(get_temperature_description t = Some ''Zeer koud'') = (-20 < py_trunc t \<and> py_trunc t \<le> -10)"
  unfolding temperature_by_trunc Let_def by (simp split: if_splits)

lemma stabiel_iff:
  "(get_air_pressure_description p = Some ''Stabiel'') = (1010 < py_trunc p \<and> py_trunc p \<le> 1030)"
  unfolding pressure_by_trunc Let_def by (simp split: if_splits)

lemma matig_laag_iff:
  "(get_air_pressure_description p = Some ''Matig laag'') = (990 < py_trunc p \<and> py_trunc p \<le> 1010)"
  unfolding pressure_by_trunc Let_def by (simp split: if_splits)

lemma comfortabel_iff:
  "(get_humidity_description h = Some ''Comfortabel'') = (40 \<le> h \<and> h < 60)"
  unfolding humidity_bands by (simp split: if_splits)

lemma hoog_iff:
  "(get_humidity_description h = Some ''Hoog'') = (60 \<le> h \<and> h < 70)"
  unfolding humidity_bands by (simp split: if_splits)

lemma goed_iff:
  "(get_visibility_description v = Some ''Goed'') = (5 \<le> v \<and> v < 10)"
  unfolding visibility_bands by (simp split: if_splits)

text \<open>
  Claim C7, as the code has it. The temperature and pressure tests include both bounds
  and the humidity and visibility tests exclude the upper one. Neighbouring temperature
  bands share their bound and the first band in table order wins, so \<open>-10\<close> is described
  by the band \<open>(-20, -10)\<close> as "Zeer koud"; "Erg koud" is the answer exactly for the
  integer parts \<open>-9 .. 0\<close>. Humidity \<open>40\<close> is "Comfortabel" and humidity \<open>60\<close> is "Hoog".
\<close>

theorem range_lookup_boundaries:
  "(get_temperature_description t = Some ''Erg koud'') = (-10 < py_trunc t \<and> py_trunc t \<le> 0)
   \<and> (get_temperature_description t = Some ''Zeer koud'') = (-20 < py_trunc t \<and> py_trunc t \<le> -10)
   \<and> get_temperature_description (-10) = Some ''Zeer koud''
   \<and> (get_air_pressure_description p = Some ''Stabiel'') = (1010 < py_trunc p \<and> py_trunc p \<le> 1030)
   \<and> (get_air_pressure_description p = Some ''Matig laag'') = (990 < py_trunc p \<and> py_trunc p \<le> 1010)
   \<and> (get_humidity_description h = Some ''Comfortabel'') = (40 \<le> h \<and> h < 60)
   \<and> (get_humidity_description h = Some ''Hoog'') = (60 \<le> h \<and> h < 70)
   \<and> (get_visibility_description v = Some ''Goed'') = (5 \<le> v \<and> v < 10)
   \<and> get_humidity_description 40 = Some ''Comfortabel''
   \<and> get_humidity_description 60 = Some ''Hoog''"
proof -
  have a: "get_temperature_description (-10) = Some ''Zeer koud''" by code_simp
  have b: "get_humidity_description 40 = Some ''Comfortabel''" by code_simp
  have c: "get_humidity_description 60 = Some ''Hoog''" by code_simp
  show ?thesis
    by (intro conjI erg_koud_iff zeer_koud_iff a stabiel_iff matig_laag_iff comfortabel_iff
        hoog_iff goed_iff b c)
qed

text \<open>
  Claim C7 as it is written fails at the temperature \<open>-10\<close>: the description is not
  "Erg koud".
\<close>

theorem temperature_minus_ten_not_erg_koud:
  "get_temperature_description (-10) \<noteq> Some ''Erg koud''"
  by code_simp

text \<open>
  Claim C8, as the code has it. For the sample payload the lookups give: the icon
  \<open>arrow-top-right-thick\<close> for 225 degrees (returned as \<open>mdi:arrow-top-right-thick\<close>),
  "Aangenaam" for 18.1 degrees, the Beaufort name "Krachtig" for force 6, "Hoog" for 69
  percent humidity, and for 1004.7 hPa (integer part 1004, inside 990 .. 1010) the
  pressure band "Matig laag" with the barometer word "Veranderlijk".
\<close>

theorem sample_payload_lookups:
  "icon_direction 225 = ''arrow-top-right-thick''
   \<and> wind_direction_icon 225 = ''mdi:arrow-top-right-thick''
   \<and> get_temperature_description (181 / 10) = Some ''Aangenaam''
   \<and> map_option benaming (get_windforce_description 6) = Some ''Krachtig''
   \<and> get_air_pressure_description (10047 / 10) = Some ''Matig laag''
   \<and> get_air_pressure_barometer (10047 / 10) = Some ''Veranderlijk''
   \<and> get_humidity_description 69 = Some ''Hoog''"
proof -
  have "icon_direction 225 = ''arrow-top-right-thick''" by code_simp
  moreover have "wind_direction_icon 225 = ''mdi:arrow-top-right-thick''" by code_simp
  moreover have "get_temperature_description (181 / 10) = Some ''Aangenaam''" by code_simp
  moreover have "map_option benaming (get_windforce_description 6) = Some ''Krachtig''"
    by code_simp
  moreover have "get_air_pressure_description (10047 / 10) = Some ''Matig laag''" by code_simp
  moreover have "get_air_pressure_barometer (10047 / 10) = Some ''Veranderlijk''" by code_simp
  moreover have "get_humidity_description 69 = Some ''Hoog''" by code_simp
  ultimately show ?thesis by blast
qed

text \<open>
  Claim C8 as it is written fails at the pressure: for 1004.7 hPa the band is not
  "Stabiel" and the barometer word is not "Mooi weer".
\<close>

theorem sample_pressure_not_stabiel:
  "get_air_pressure_description (10047 / 10) \<noteq> Some ''Stabiel''
   \<and> get_air_pressure_barometer (10047 / 10) \<noteq> Some ''Mooi weer''"
proof -
  have "get_air_pressure_description (10047 / 10) \<noteq> Some ''Stabiel''" by code_simp
  moreover have "get_air_pressure_barometer (10047 / 10) \<noteq> Some ''Mooi weer''" by code_simp
  ultimately show ?thesis by blast
qed

section \<open>What a fetch and a refresh leave alone\<close>

text \<open>
  The client touches only the \<open>world\<close> part of the state (the coordinator's own fields
  stay as they are) and counts exactly one request for each call.
\<close>

lemma handle_error_responses_frame:
  "handle_error_responses u txt w = (r, w') \<Longrightarrow>
     world.more w' = world.more w \<and> http_calls w' = http_calls w \<and> logged w' = logged w"
  by (auto simp: handle_error_responses_def split: if_splits)

lemma parse_json_response_frame:
  "parse_json_response r w = (res, w') \<Longrightarrow>
     world.more w' = world.more w \<and> http_calls w' = http_calls w
     \<and> notification_id w' = notification_id w \<and> hass_data w' = hass_data w"
  by (auto simp: parse_json_response_def log_error_def split: option.splits if_splits)

lemma dismissal_frame:
  "handle_notification_dismissal w = (r, w') \<Longrightarrow>
     world.more w' = world.more w \<and> http_calls w' = http_calls w \<and> logged w' = logged w"
  by (auto simp: handle_notification_dismissal_def py_await_def Let_def split: if_splits)

lemma api_try_frame:
  "api_try u t w = (res, w') \<Longrightarrow>
     world.more w' = world.more w \<and> http_calls w' = http_calls w + 1"
  by (auto simp: api_try_def Let_def
      split: transport.splits prod.splits option.splits sum.splits if_splits
      dest!: handle_error_responses_frame parse_json_response_frame dismissal_frame)

lemma api_except_frame:
  "api_except ex w = (res, w') \<Longrightarrow>
     world.more w' = world.more w \<and> http_calls w' = http_calls w
     \<and> notification_id w' = notification_id w \<and> hass_data w' = hass_data w"
  by (auto simp: api_except_def log_error_def split: if_splits)

lemma api_wrapper_frame:
  "api_wrapper u t w = (res, w') \<Longrightarrow>
     world.more w' = world.more w \<and> http_calls w' = http_calls w + 1"
  by (auto simp: api_wrapper_def split: prod.splits sum.splits
      dest!: api_try_frame api_except_frame)

lemma coordinator_fields_of_more:
  fixes c c' :: coordinator
  assumes "world.more c' = world.more c"
  shows "data c' = data c" "last_update_time c' = last_update_time c"
    "timestamp_int c' = timestamp_int c" "refresh_interval c' = refresh_interval c"
    "update_interval c' = update_interval c" "tasks c' = tasks c"
  using assms by (cases c; cases c'; simp)+

lemma async_get_data_frame:
  "async_get_data u t w = (res, w') \<Longrightarrow>
     world.more w' = world.more w \<and> http_calls w' = http_calls w + 1"
  by (simp add: async_get_data_def api_wrapper_frame)

lemma timestamp_fallback_frame:
  "http_calls (timestamp_fallback e c) = http_calls c
   \<and> data (timestamp_fallback e c) = data c \<and> tasks (timestamp_fallback e c) = tasks c
   \<and> refresh_interval (timestamp_fallback e c) = refresh_interval c
   \<and> update_interval (timestamp_fallback e c) = update_interval c
   \<and> notification_id (timestamp_fallback e c) = notification_id c
   \<and> hass_data (timestamp_fallback e c) = hass_data c
   \<and> last_update_time (timestamp_fallback e c) = Some (now_fallback e)
   \<and> logged (timestamp_fallback e c) = logged c @ [LogWarning ''Invalid timestamp format: %s'']"
  by (simp add: timestamp_fallback_def log_warning_def)

text \<open>
  \<open>_update_timestamp\<close> written out for a \<open>timestamp\<close> that is not \<open>None\<close>.
\<close>

lemma update_timestamp_some:
  assumes "map_of wd ''timestamp'' = Some ts" "ts \<noteq> PNone"
  shows "update_timestamp e wd c =
           (case py_int ts of
              Inl ex \<Rightarrow> if ex = ValueError then (None, timestamp_fallback e c) else (Some ex, c)
            | Inr n \<Rightarrow>
                (case fromtimestamp e n of
                   Inr t \<Rightarrow> (None, c\<lparr>timestamp_int := Some n, last_update_time := Some t\<rparr>)
                 | Inl ex \<Rightarrow>
                     if ex = ValueError
                     then (None, timestamp_fallback e (c\<lparr>timestamp_int := Some n\<rparr>))
                     else (Some ex, c\<lparr>timestamp_int := Some n\<rparr>)))"
  using assms by (cases ts) (simp_all add: update_timestamp_def Let_def split: sum.splits)

lemma update_timestamp_frame:
  "update_timestamp e wd c = (r, c') \<Longrightarrow>
     http_calls c' = http_calls c \<and> data c' = data c \<and> tasks c' = tasks c
     \<and> refresh_interval c' = refresh_interval c \<and> update_interval c' = update_interval c
     \<and> notification_id c' = notification_id c \<and> hass_data c' = hass_data c"
proof (cases "map_of wd ''timestamp''")
  case None
  assume "update_timestamp e wd c = (r, c')"
  with None show ?thesis by (simp add: update_timestamp_def)
next
  case (Some ts)
  assume a: "update_timestamp e wd c = (r, c')"
  show ?thesis
  proof (cases "ts = PNone")
    case True
    with Some a show ?thesis by (simp add: update_timestamp_def)
  next
    case False
    from a show ?thesis
      unfolding update_timestamp_some [OF Some False]
      by (auto simp: timestamp_fallback_frame split: sum.splits if_splits)
  qed
qed

lemma update_timestamp_raised_time:
  "update_timestamp e wd c = (Some ex, c') \<Longrightarrow>
     last_update_time c' = last_update_time c \<and> logged c' = logged c"
proof (cases "map_of wd ''timestamp''")
  case None
  assume "update_timestamp e wd c = (Some ex, c')"
  with None show ?thesis by (auto simp: update_timestamp_def)
next
  case (Some ts)
  assume a: "update_timestamp e wd c = (Some ex, c')"
  show ?thesis
  proof (cases "ts = PNone")
    case True
    with Some a show ?thesis by (simp add: update_timestamp_def)
  next
    case False
    from a show ?thesis
      unfolding update_timestamp_some [OF Some False]
      by (auto split: sum.splits if_splits)
  qed
qed

lemma update_timestamp_raised:
  assumes "update_timestamp e wd c = (Some ex, c')"
  shows "last_update_time c' = last_update_time c \<and> logged c' = logged c
         \<and> tasks c' = tasks c \<and> refresh_interval c' = refresh_interval c
         \<and> update_interval c' = update_interval c"
  using update_timestamp_raised_time [OF assms] update_timestamp_frame [OF assms] by simp

lemma schedule_next_update_frame:
  "http_calls (schedule_next_update now j c) = http_calls c
   \<and> data (schedule_next_update now j c) = data c
   \<and> last_update_time (schedule_next_update now j c) = last_update_time c
   \<and> refresh_interval (schedule_next_update now j c) = refresh_interval c
   \<and> update_interval (schedule_next_update now j c) = update_interval c
   \<and> logged (schedule_next_update now j c) = logged c
   \<and> notification_id (schedule_next_update now j c) = notification_id c
   \<and> hass_data (schedule_next_update now j c) = hass_data c"
  by (simp add: schedule_next_update_def Let_def split: option.splits)

text \<open>The three ways through \<open>_async_update_data\<close>: skipped, failed, and fetched.\<close>

lemma gate_closed:
  assumes "last_update_time c = Some t" "now_gate e < t + timedelta_seconds 600"
  shows "async_update_data e c = (Inr (data c), c)"
  using assms by (simp add: async_update_data_def is_update_interval_passed_def)

lemma gate_not_open:
  assumes "\<not> (last_update_time c = None \<or> is_update_interval_passed (now_gate e) c)"
  shows "async_update_data e c = (Inr (data c), c)"
  using assms by (auto simp: async_update_data_def)

lemma gate_open:
  assumes "last_update_time c = None \<or> is_update_interval_passed (now_gate e) c"
    and "async_get_data (uuid4 e) (http e) c = (x, c1)"
  shows "async_update_data e c =
           (case x of
              Inl ex \<Rightarrow> update_failed c1
            | Inr d \<Rightarrow>
                (case WeatherData d of
                   Inl ex \<Rightarrow> update_failed c1
                 | Inr wd \<Rightarrow>
                     (case update_timestamp e wd (c1\<lparr>data := Some wd\<rparr>) of
                        (Some ex, c3) \<Rightarrow> update_failed c3
                      | (None, c3) \<Rightarrow>
                          (Inr (Some wd),
                           schedule_next_update (now_schedule e) (random_draw e) c3))))"
  using assms by (auto simp: async_update_data_def Let_def split: sum.splits)

lemma gate_open_calls:
  assumes "last_update_time c = None \<or> is_update_interval_passed (now_gate e) c"
  shows "http_calls (snd (async_update_data e c)) = http_calls c + 1"
proof -
  obtain x c1 where g: "async_get_data (uuid4 e) (http e) c = (x, c1)"
    by (cases "async_get_data (uuid4 e) (http e) c")
  from async_get_data_frame [OF g] have f: "http_calls c1 = http_calls c + 1" by simp
  show ?thesis
    unfolding gate_open [OF assms g]
    using f
    by (auto simp: update_failed_def log_error_def schedule_next_update_frame
        split: sum.splits prod.splits option.splits dest!: update_timestamp_frame)
qed

lemma no_fetch_unchanged:
  assumes "http_calls (snd (async_update_data e c)) = http_calls c"
  shows "async_update_data e c = (Inr (data c), c)"
proof (cases "last_update_time c = None \<or> is_update_interval_passed (now_gate e) c")
  case True
  from gate_open_calls [OF this] assms show ?thesis by simp
next
  case False
  then show ?thesis by (rule gate_not_open)
qed

lemma success_path:
  assumes "async_update_data e c = (Inr r, c')" "http_calls c' = http_calls c + 1"
  shows "\<exists>d c1 wd c3.
           async_get_data (uuid4 e) (http e) c = (Inr d, c1)
           \<and> WeatherData d = Inr wd \<and> r = Some wd
           \<and> update_timestamp e wd (c1\<lparr>data := Some wd\<rparr>) = (None, c3)
           \<and> c' = schedule_next_update (now_schedule e) (random_draw e) c3"
proof (cases "last_update_time c = None \<or> is_update_interval_passed (now_gate e) c")
  case False
  from gate_not_open [OF this] assms show ?thesis by simp
next
  case True
  obtain x c1 where g: "async_get_data (uuid4 e) (http e) c = (x, c1)"
    by (cases "async_get_data (uuid4 e) (http e) c")
  from assms(1) show ?thesis
    unfolding gate_open [OF True g]
    using g
    by (auto simp: update_failed_def split: sum.splits prod.splits option.splits)
qed

lemma failure_path:
  assumes "async_update_data e c = (Inl ex, c')"
  shows "ex = UpdateFailed \<and> last_update_time c' = last_update_time c \<and> tasks c' = tasks c
         \<and> refresh_interval c' = refresh_interval c
         \<and> update_interval c' = update_interval c
         \<and> LogError ''Error fetching KNMI data: %s'' \<in> set (logged c')"
proof (cases "last_update_time c = None \<or> is_update_interval_passed (now_gate e) c")
  case False
  from gate_not_open [OF this] assms show ?thesis by simp
next
  case True
  obtain x c1 where g: "async_get_data (uuid4 e) (http e) c = (x, c1)"
    by (cases "async_get_data (uuid4 e) (http e) c")
  from async_get_data_frame [OF g] have m: "world.more c1 = world.more c" by simp
  note f = coordinator_fields_of_more [OF m]
  from assms show ?thesis
    unfolding gate_open [OF True g]
    using f
    by (auto simp: update_failed_def log_error_def
        split: sum.splits prod.splits option.splits
        dest!: update_timestamp_raised)
qed


lemma transport_failure_fetch:
  assumes "t = TimedOut \<or> t = ConnectionFailed"
  shows "async_get_data u t w =
           (Inr PNone,
            w\<lparr>http_calls := http_calls w + 1,
              logged := logged w @
                [LogError (if t = TimedOut
                           then ''Timeout error fetching information from %s - %s''
                           else ''Error fetching information from %s - %s'')]\<rparr>)"
  using assms
  by (auto simp: async_get_data_def api_wrapper_def api_try_def api_except_def log_error_def
      Let_def)

lemma transport_failure_update:
  assumes "http e = TimedOut \<or> http e = ConnectionFailed"
    and "last_update_time c = None \<or> is_update_interval_passed (now_gate e) c"
  shows "async_update_data e c =
           (Inl UpdateFailed,
            c\<lparr>http_calls := http_calls c + 1,
              logged := logged c @
                [LogError (if http e = TimedOut
                           then ''Timeout error fetching information from %s - %s''
                           else ''Error fetching information from %s - %s''),
                 LogError ''Error fetching KNMI data: %s'']\<rparr>)"
  using assms(2) transport_failure_fetch [OF assms(1), of "uuid4 e" c]
  by (auto simp: async_update_data_def WeatherData_def update_failed_def log_error_def)

section \<open>The sample payload, evaluated\<close>

lemma contains_skip:
  "m \<noteq> [] \<Longrightarrow> hd m \<notin> set a \<Longrightarrow> contains m (a @ b) = contains m b"
proof (induction a)
  case Nil
  then show ?case by simp
next
  case (Cons x a)
  then have "\<not> prefix m (x # a @ b)" by (cases m) auto
  with Cons show ?case by simp
qed

lemma testdata_body_suffix_markers:
  "\<not> contains ''Vraag eerst een API-key op'' testdata_body_suffix"
  "\<not> contains ''Dagelijkse limiet'' testdata_body_suffix"
  "\<not> contains ''De server ondervindt een probleem'' testdata_body_suffix"
  by (simp_all add: testdata_body_suffix_def)

lemma testdata_body_with_markers:
  assumes "CHR ''V'' \<notin> set tj" "CHR ''D'' \<notin> set tj"
  shows "\<not> contains ''Vraag eerst een API-key op'' (testdata_body_with tj)"
    "\<not> contains ''Dagelijkse limiet'' (testdata_body_with tj)"
    "\<not> contains ''De server ondervindt een probleem'' (testdata_body_with tj)"
proof -
  have p: "CHR ''V'' \<notin> set (testdata_body_prefix @ tj)" "CHR ''D'' \<notin> set (testdata_body_prefix @ tj)"
    using assms by (simp_all add: testdata_body_prefix_def)
  have b: "testdata_body_with tj = (testdata_body_prefix @ tj) @ testdata_body_suffix"
    by (simp add: testdata_body_with_def)
  show "\<not> contains ''Vraag eerst een API-key op'' (testdata_body_with tj)"
    unfolding b using p by (simp add: contains_skip testdata_body_suffix_markers)
  show "\<not> contains ''Dagelijkse limiet'' (testdata_body_with tj)"
    unfolding b using p by (simp add: contains_skip testdata_body_suffix_markers)
  show "\<not> contains ''De server ondervindt een probleem'' (testdata_body_with tj)"
    unfolding b using p by (simp add: contains_skip testdata_body_suffix_markers)
qed

lemma testdata_body_markers:
  "\<not> contains ''Vraag eerst een API-key op'' testdata_body"
  "\<not> contains ''Dagelijkse limiet'' testdata_body"
  "\<not> contains ''De server ondervindt een probleem'' testdata_body"
  by (simp_all add: testdata_body_def testdata_body_with_markers)

lemma weather_data_of_fields:
  "map fst kvs = weather_fields \<Longrightarrow> WeatherData (PDict kvs) = Inr kvs"
  by (simp add: WeatherData_def list_all_iff)

lemma testdata_fields: "map fst testdata_liveweer = weather_fields"
  by (simp add: testdata_liveweer_def weather_fields_def)

lemma testdata_with_fields: "map fst (testdata_liveweer_with ts) = weather_fields"
proof -
  have "''timestamp'' \<in> set (map fst testdata_liveweer)"
    unfolding testdata_fields by (simp add: weather_fields_def)
  then show ?thesis
    by (simp add: testdata_liveweer_with_def update_keys testdata_fields)
qed

lemma testdata_weather: "WeatherData (PDict testdata_liveweer) = Inr testdata_liveweer"
  by (rule weather_data_of_fields [OF testdata_fields])

lemma testdata_with_weather:
  "WeatherData (PDict (testdata_liveweer_with ts)) = Inr (testdata_liveweer_with ts)"
  by (rule weather_data_of_fields [OF testdata_with_fields])

lemma testdata_with_timestamp: "map_of (testdata_liveweer_with ts) ''timestamp'' = Some ts"
  by (simp add: testdata_liveweer_with_def update_conv')

lemma testdata_with_same: "testdata_liveweer_with (PStr ''1689469384'') = testdata_liveweer"
  by (simp add: testdata_liveweer_with_def testdata_liveweer_def)

lemma testdata_response_same:
  \<open>testdata_response = testdata_response_with ''"1689469384"'' (PStr ''1689469384'')\<close>
  by (simp add: testdata_response_def testdata_response_with_def testdata_body_def testdata_def
      testdata_with_same)


lemma testdata_first_liveweer:
  "first_liveweer (PDict [(''liveweer'', PList [PDict (testdata_liveweer_with ts)])])
     = Inr (PDict (testdata_liveweer_with ts))"
proof -
  have "testdata_liveweer_with ts \<noteq> []"
    using testdata_with_fields [of ts] by (auto simp: weather_fields_def)
  then show ?thesis by (simp add: first_liveweer_def)
qed

text \<open>
  A client that holds no notification id fetches the payload and is otherwise left as
  it was.
\<close>

lemma sample_fetch:
  assumes "CHR ''V'' \<notin> set tj" "CHR ''D'' \<notin> set tj" and "notification_id w = None"
  shows "async_get_data u (Response (testdata_response_with tj ts)) w
           = (Inr (PDict (testdata_liveweer_with ts)), w\<lparr>http_calls := http_calls w + 1\<rparr>)"
  using assms(3)
  by (simp add: async_get_data_def api_wrapper_def api_try_def handle_error_responses_def
      parse_json_response_def testdata_response_with_def
      testdata_body_with_markers [OF assms(1,2)]
      testdata_first_liveweer handle_notification_dismissal_def Let_def)

lemma sample_refresh:
  assumes "last_update_time c = None \<or> is_update_interval_passed (now_gate e) c"
    and "http e = Response (testdata_response_with tj ts)"
    and "CHR ''V'' \<notin> set tj" "CHR ''D'' \<notin> set tj" and "notification_id c = None"
  shows "async_update_data e c =
           (case update_timestamp e (testdata_liveweer_with ts)
                   (c\<lparr>http_calls := http_calls c + 1,
                      data := Some (testdata_liveweer_with ts)\<rparr>) of
              (Some ex, c3) \<Rightarrow> update_failed c3
            | (None, c3) \<Rightarrow>
                (Inr (Some (testdata_liveweer_with ts)),
                 schedule_next_update (now_schedule e) (random_draw e) c3))"
proof -
  have g: "async_get_data (uuid4 e) (http e) c
             = (Inr (PDict (testdata_liveweer_with ts)), c\<lparr>http_calls := http_calls c + 1\<rparr>)"
    unfolding assms(2) by (rule sample_fetch [OF assms(3,4,5)])
  show ?thesis
    unfolding gate_open [OF assms(1) g] by (simp add: testdata_with_weather)
qed

lemma int_of_sample_timestamps:
  "int_of_str ''1689469384'' = Some 1689469384"
  "int_of_str ''1689469984'' = Some 1689469984"
  "int_of_str ''1689469384000'' = Some 1689469384000"
  "int_of_str ''100000000000000000000'' = Some 100000000000000000000"
  "int_of_str ''onbekend'' = None"
  by code_simp+

lemma new_entry:
  "last_update_time (setup_coordinator opts hdata) = None"
  "notification_id (setup_coordinator opts hdata) = None"
  by (simp_all add: setup_coordinator_def init_coordinator_def Let_def)

lemma first_refresh:
  "async_update_data fresh_env (setup_coordinator [] [])
     = (Inr (Some testdata_liveweer), loaded_coordinator)"
proof -
  have h: "http fresh_env = Response (testdata_response_with ''\"1689469384\"'' (PStr ''1689469384''))"
    by (simp add: fresh_env_def testdata_response_same)
  show ?thesis
    unfolding loaded_coordinator_def testdata_with_same [symmetric]
    unfolding sample_refresh [OF disjI1 [OF new_entry(1)] h _ _ new_entry(2), simplified]
    by (simp add: update_timestamp_some [OF testdata_with_timestamp] int_of_sample_timestamps
        fresh_env_def sample_fromtimestamp_def datetime_at_def
        schedule_next_update_def randint_def timedelta_seconds_def Let_def
        setup_coordinator_def init_coordinator_def get_refresh_interval_def
        DATA_REFRESH_INTERVAL_def)
qed

lemma loaded_gate:
  "last_update_time loaded_coordinator = Some (datetime_at 1689469384)
   \<and> now_gate fresh_env < datetime_at 1689469384 + timedelta_seconds 600"
  by (simp add: loaded_coordinator_def fresh_env_def datetime_at_def timedelta_seconds_def)

lemma loaded_skip:
  "async_update_data fresh_env loaded_coordinator = (Inr (data loaded_coordinator), loaded_coordinator)"
  using gate_closed loaded_gate by blast

lemma timeout_first_refresh:
  "async_update_data (fresh_env\<lparr>http := TimedOut\<rparr>) (setup_coordinator [] []) =
     (Inl UpdateFailed,
      (setup_coordinator [] [])
        \<lparr>http_calls := 1,
         logged := [LogError ''Timeout error fetching information from %s - %s'',
                    LogError ''Error fetching KNMI data: %s'']\<rparr>)"
proof -
  have "last_update_time (setup_coordinator [] []) = None"
    by (simp add: setup_coordinator_def init_coordinator_def)
  then show ?thesis
    using transport_failure_update [of "fresh_env\<lparr>http := TimedOut\<rparr>" "setup_coordinator [] []"]
    by (simp add: setup_coordinator_def init_coordinator_def)
qed

section \<open>The freshness gate and the timestamp\<close>

text \<open>
  Claim C1. While \<open>last_update_time\<close> is set and fewer than 600 seconds have passed since
  it, a refresh sends no HTTP request and returns the stored snapshot, leaving the whole
  state as it was. A request is sent (exactly one) if and only if \<open>last_update_time\<close> is
  unset or at least 600 seconds have passed since it.
\<close>

theorem freshness_gate:
  "(last_update_time c = Some t \<and> now_gate e < t + timedelta_seconds 600
      \<longrightarrow> async_update_data e c = (Inr (data c), c))
   \<and> http_calls (snd (async_update_data e c)) =
       http_calls c +
         (if last_update_time c = None
             \<or> (\<exists>t. last_update_time c = Some t \<and> t + timedelta_seconds 600 \<le> now_gate e)
          then 1 else 0)"
proof (intro conjI impI)
  assume "last_update_time c = Some t \<and> now_gate e < t + timedelta_seconds 600"
  then show "async_update_data e c = (Inr (data c), c)"
    using gate_closed by blast
next
  show "http_calls (snd (async_update_data e c)) =
       http_calls c +
         (if last_update_time c = None
             \<or> (\<exists>t. last_update_time c = Some t \<and> t + timedelta_seconds 600 \<le> now_gate e)
          then 1 else 0)"
  proof (cases "last_update_time c")
    case None
    then show ?thesis using gate_open_calls [of c e] by simp
  next
    case (Some t)
    show ?thesis
    proof (cases "t + timedelta_seconds 600 \<le> now_gate e")
      case True
      then show ?thesis
        using Some gate_open_calls [of c e] by (simp add: is_update_interval_passed_def)
    next
      case False
      then show ?thesis using Some gate_closed [of c t e] by simp
    qed
  qed
qed

text \<open>
  The gate at work: 116 seconds after the timestamp of the sample snapshot the refresh
  is skipped.
\<close>

theorem freshness_gate_witness:
  "last_update_time loaded_coordinator = Some (datetime_at 1689469384)
   \<and> now_gate fresh_env < datetime_at 1689469384 + timedelta_seconds 600
   \<and> async_update_data fresh_env loaded_coordinator
        = (Inr (data loaded_coordinator), loaded_coordinator)"
  using freshness_gate [of loaded_coordinator "datetime_at 1689469384" fresh_env] loaded_gate
  by simp








section \<open>Scheduling the next refresh\<close>

lemma randint_bounds: "a \<le> b \<Longrightarrow> a \<le> randint a b draw \<and> randint a b draw \<le> b"
proof -
  assume "a \<le> b"
  then have p: "0 < nat (b - a + 1)" by simp
  have "draw mod nat (b - a + 1) < nat (b - a + 1)"
    using p by (rule mod_less_divisor)
  then have "int (draw mod nat (b - a + 1)) < b - a + 1" by linarith
  then show ?thesis by (simp add: randint_def)
qed

lemma randint_1_60: "1 \<le> randint 1 60 draw \<and> randint 1 60 draw \<le> 60"
  using randint_bounds [of 1 60 draw] by simp

lemma randint_reaches: "a \<le> j \<Longrightarrow> j \<le> b \<Longrightarrow> randint a b (nat (j - a)) = j"
  by (simp add: randint_def)

lemma first_run_value:
  "first_run =
     \<lparr>notification_id = None, hass_data = [], logged = [], http_calls = 1,
      data = Some testdata_liveweer, last_update_time = Some (datetime_at 1689469384),
      timestamp_int = Some 1689469384, refresh_interval = 1300, update_interval = 1300,
      tasks = [\<lparr>armed_at = datetime_at 1689469502, delay = 1199000000\<rparr>]\<rparr>"
proof -
  have h: \<open>http fresh_env = Response (testdata_response_with ''"1689469384"'' (PStr ''1689469384''))\<close>
    by (simp add: fresh_env_def testdata_response_same)
  show ?thesis
    unfolding first_run_def testdata_with_same [symmetric]
    unfolding sample_refresh [OF disjI1 [OF new_entry(1)] h _ _ new_entry(2), simplified]
    by (simp add: update_timestamp_some [OF testdata_with_timestamp] int_of_sample_timestamps
        fresh_env_def sample_fromtimestamp_def datetime_at_def
        schedule_next_update_def randint_def timedelta_seconds_def Let_def
        setup_coordinator_def init_coordinator_def get_refresh_interval_def)
qed

lemma second_run_value:
  "second_run =
     \<lparr>notification_id = None, hass_data = [], logged = [], http_calls = 2,
      data = Some (testdata_liveweer_with (PStr ''1689469984'')),
      last_update_time = Some (datetime_at 1689469984),
      timestamp_int = Some 1689469984, refresh_interval = 1300, update_interval = 1300,
      tasks = [\<lparr>armed_at = datetime_at 1689469502, delay = 1199000000\<rparr>,
               \<lparr>armed_at = datetime_at 1689470002, delay = 1323000000\<rparr>]\<rparr>"
proof -
  have h: \<open>http second_env = Response (testdata_response_with ''"1689469984"'' (PStr ''1689469984''))\<close>
    by (simp add: second_env_def later_response_def)
  have o: "last_update_time first_run = None \<or> is_update_interval_passed (now_gate second_env) first_run"
    by (simp add: first_run_value second_env_def is_update_interval_passed_def datetime_at_def
        timedelta_seconds_def)
  have n: "notification_id first_run = None"
    by (simp add: first_run_value)
  show ?thesis
    unfolding second_run_def
    unfolding sample_refresh [OF o h _ _ n, simplified]
    by (simp add: update_timestamp_some [OF testdata_with_timestamp] int_of_sample_timestamps
        first_run_value second_env_def sample_fromtimestamp_def datetime_at_def
        schedule_next_update_def randint_def timedelta_seconds_def Let_def)
qed

text \<open>
  Claim C6, as the code has it. After a refresh that fetched a snapshot, with
  \<open>last_update_time\<close> set, \<open>next_update_time\<close> is \<open>last_update_time\<close> plus
  \<open>refresh_interval\<close> seconds; a task is created only if that instant lies after the
  current time; the number \<open>j\<close> that \<open>random.randint(1, 60)\<close> returns lies between 1 and
  60, and the task sleeps \<open>(next_update_time - now) + j\<close> seconds, so that its refresh
  does not run before one second after \<open>next_update_time\<close>. A failed or skipped refresh
  creates no task, and no refresh removes a task that an earlier one created. Every
  number from 1 to 60 is returned on some draw.
\<close>

theorem next_update_scheduled:
  "(async_update_data e c = (Inr r, c') \<and> http_calls c' = http_calls c + 1
      \<longrightarrow> (case last_update_time c' of
             None \<Rightarrow> tasks c' = tasks c
           | Some t \<Rightarrow>
               if now_schedule e < t + timedelta_seconds (refresh_interval c')
               then 1 \<le> randint 1 60 (random_draw e) \<and> randint 1 60 (random_draw e) \<le> 60
                    \<and> tasks c' = tasks c @
                         [\<lparr>armed_at = now_schedule e,
                           delay = (t + timedelta_seconds (refresh_interval c') - now_schedule e)
                                     + timedelta_seconds (randint 1 60 (random_draw e))\<rparr>]
                    \<and> (\<forall>e' c''.
                          now_gate e' < t + timedelta_seconds (refresh_interval c')
                                          + timedelta_seconds 1
                          \<longrightarrow> task_refresh (last (tasks c')) e' c'' = None)
               else tasks c' = tasks c))
   \<and> (fst (async_update_data e c) = Inl ex \<longrightarrow> tasks (snd (async_update_data e c)) = tasks c)
   \<and> (http_calls (snd (async_update_data e c)) = http_calls c
        \<longrightarrow> tasks (snd (async_update_data e c)) = tasks c)
   \<and> prefix (tasks c) (tasks (snd (async_update_data e c)))
   \<and> (1 \<le> j \<and> j \<le> 60 \<longrightarrow> (\<exists>draw. randint 1 60 draw = j))"
proof (intro conjI impI)
  assume a: "async_update_data e c = (Inr r, c') \<and> http_calls c' = http_calls c + 1"
  then obtain d c1 wd c3 where
    g: "async_get_data (uuid4 e) (http e) c = (Inr d, c1)" and
    u: "update_timestamp e wd (c1\<lparr>data := Some wd\<rparr>) = (None, c3)" and
    c': "c' = schedule_next_update (now_schedule e) (random_draw e) c3"
    using success_path [of e c r c'] by blast
  from async_get_data_frame [OF g] have m: "world.more c1 = world.more c" by simp
  have t3: "tasks c3 = tasks c" and r3: "refresh_interval c3 = refresh_interval c"
    using update_timestamp_frame [OF u] coordinator_fields_of_more [OF m] by simp_all
  show "case last_update_time c' of
             None \<Rightarrow> tasks c' = tasks c
           | Some t \<Rightarrow>
               if now_schedule e < t + timedelta_seconds (refresh_interval c')
               then 1 \<le> randint 1 60 (random_draw e) \<and> randint 1 60 (random_draw e) \<le> 60
                    \<and> tasks c' = tasks c @
                         [\<lparr>armed_at = now_schedule e,
                           delay = (t + timedelta_seconds (refresh_interval c') - now_schedule e)
                                     + timedelta_seconds (randint 1 60 (random_draw e))\<rparr>]
                    \<and> (\<forall>e' c''.
                          now_gate e' < t + timedelta_seconds (refresh_interval c')
                                          + timedelta_seconds 1
                          \<longrightarrow> task_refresh (last (tasks c')) e' c'' = None)
               else tasks c' = tasks c"
  proof (cases "last_update_time c3")
    case None
    then show ?thesis using c' t3 by (simp add: schedule_next_update_def)
  next
    case (Some t)
    then show ?thesis
      using c' t3 r3 randint_1_60 [of "random_draw e"]
      by (simp add: schedule_next_update_def Let_def timedelta_seconds_def task_refresh_def)
  qed
next
  assume "fst (async_update_data e c) = Inl ex"
  then have "async_update_data e c = (Inl ex, snd (async_update_data e c))"
    by (metis prod.collapse)
  from failure_path [OF this] show "tasks (snd (async_update_data e c)) = tasks c" by simp
next
  assume "http_calls (snd (async_update_data e c)) = http_calls c"
  from no_fetch_unchanged [OF this] show "tasks (snd (async_update_data e c)) = tasks c" by simp
next
  show "prefix (tasks c) (tasks (snd (async_update_data e c)))"
  proof (cases "async_update_data e c")
    case (Pair x c')
    show ?thesis
    proof (cases x)
      case (Inl ex)
      with Pair failure_path [of e c ex c'] show ?thesis by simp
    next
      case (Inr r)
      show ?thesis
      proof (cases "http_calls c' = http_calls c + 1")
        case False
        have "\<not> (last_update_time c = None \<or> is_update_interval_passed (now_gate e) c)"
        proof
          assume o: "last_update_time c = None \<or> is_update_interval_passed (now_gate e) c"
          from gate_open_calls [OF o] Pair False show False by simp
        qed
        from gate_not_open [OF this] show ?thesis by simp
      next
        case True
        with Pair Inr obtain d c1 wd c3 where
          g: "async_get_data (uuid4 e) (http e) c = (Inr d, c1)" and
          u: "update_timestamp e wd (c1\<lparr>data := Some wd\<rparr>) = (None, c3)" and
          c': "c' = schedule_next_update (now_schedule e) (random_draw e) c3"
          using success_path [of e c r c'] by blast
        from async_get_data_frame [OF g] have m: "world.more c1 = world.more c" by simp
        have t3: "tasks c3 = tasks c"
          using update_timestamp_frame [OF u] coordinator_fields_of_more [OF m] by simp
        show ?thesis
          using Pair c' t3
          by (simp add: schedule_next_update_def Let_def split: option.splits)
      qed
    qed
  qed
next
  assume "1 \<le> j \<and> j \<le> 60"
  then have "randint 1 60 (nat (j - 1)) = j" by (simp add: randint_reaches)
  then show "\<exists>draw. randint 1 60 draw = j" by blast
qed

text \<open>
  On the first refresh with the sample payload the draw gives 17 and the task sleeps
  182 + 17 seconds, so that its refresh does not run 300 seconds after the snapshot's
  timestamp; the timed-out and the skipped refresh create none.
\<close>

theorem next_update_scheduled_witness:
  "async_update_data fresh_env (setup_coordinator [] [])
      = (Inr (Some testdata_liveweer), loaded_coordinator)
   \<and> http_calls loaded_coordinator = http_calls (setup_coordinator [] []) + 1
   \<and> last_update_time loaded_coordinator = Some (datetime_at 1689469384)
   \<and> now_schedule fresh_env
        < datetime_at 1689469384 + timedelta_seconds (refresh_interval loaded_coordinator)
   \<and> randint 1 60 (random_draw fresh_env) = 17
   \<and> tasks loaded_coordinator =
        tasks (setup_coordinator [] []) @
          [\<lparr>armed_at = now_schedule fresh_env,
            delay = (datetime_at 1689469384 + timedelta_seconds (refresh_interval loaded_coordinator)
                       - now_schedule fresh_env) + timedelta_seconds 17\<rparr>]
   \<and> now_gate (fresh_env\<lparr>now_gate := datetime_at 1689469684\<rparr>)
        < datetime_at 1689469384 + timedelta_seconds (refresh_interval loaded_coordinator)
            + timedelta_seconds 1
   \<and> task_refresh (last (tasks loaded_coordinator))
        (fresh_env\<lparr>now_gate := datetime_at 1689469684\<rparr>) loaded_coordinator = None
   \<and> tasks (snd (async_update_data (fresh_env\<lparr>http := TimedOut\<rparr>) (setup_coordinator [] [])))
        = tasks (setup_coordinator [] [])
   \<and> tasks (snd (async_update_data fresh_env loaded_coordinator)) = tasks loaded_coordinator
   \<and> (\<exists>draw. randint 1 60 draw = 17)"
proof -
  have f: "fst (async_update_data (fresh_env\<lparr>http := TimedOut\<rparr>) (setup_coordinator [] []))
      = Inl UpdateFailed"
    by (simp add: timeout_first_refresh)
  have h: "http_calls loaded_coordinator = http_calls (setup_coordinator [] []) + 1"
    by (simp add: loaded_coordinator_def setup_coordinator_def init_coordinator_def)
  have n: "http_calls (snd (async_update_data fresh_env loaded_coordinator))
      = http_calls loaded_coordinator"
    by (simp add: loaded_skip)
  have l: "last_update_time loaded_coordinator = Some (datetime_at 1689469384)
      \<and> now_schedule fresh_env
        < datetime_at 1689469384 + timedelta_seconds (refresh_interval loaded_coordinator)
      \<and> now_gate (fresh_env\<lparr>now_gate := datetime_at 1689469684\<rparr>)
        < datetime_at 1689469384 + timedelta_seconds (refresh_interval loaded_coordinator)
            + timedelta_seconds 1"
    by (simp add: loaded_coordinator_def fresh_env_def datetime_at_def timedelta_seconds_def)
  have j: "randint 1 60 (random_draw fresh_env) = 17"
    by (simp add: randint_def fresh_env_def)
  from next_update_scheduled
         [where e = fresh_env and c = "setup_coordinator [] []"
            and r = "Some testdata_liveweer" and c' = loaded_coordinator and j = 17]
       h l j first_refresh
  have k: "tasks loaded_coordinator =
        tasks (setup_coordinator [] []) @
          [\<lparr>armed_at = now_schedule fresh_env,
            delay = (datetime_at 1689469384 + timedelta_seconds (refresh_interval loaded_coordinator)
                       - now_schedule fresh_env) + timedelta_seconds 17\<rparr>]
     \<and> (\<forall>e' c''. now_gate e'
                < datetime_at 1689469384 + timedelta_seconds (refresh_interval loaded_coordinator)
                    + timedelta_seconds 1
              \<longrightarrow> task_refresh (last (tasks loaded_coordinator)) e' c'' = None)
     \<and> (\<exists>draw. randint 1 60 draw = (17 :: int))"
    by simp (elim conjE, simp)
  from k have s: "tasks loaded_coordinator =
        tasks (setup_coordinator [] []) @
          [\<lparr>armed_at = now_schedule fresh_env,
            delay = (datetime_at 1689469384 + timedelta_seconds (refresh_interval loaded_coordinator)
                       - now_schedule fresh_env) + timedelta_seconds 17\<rparr>]"
    by (rule conjunct1)
  from k have w: "\<forall>e' c''. now_gate e'
                < datetime_at 1689469384 + timedelta_seconds (refresh_interval loaded_coordinator)
                    + timedelta_seconds 1
              \<longrightarrow> task_refresh (last (tasks loaded_coordinator)) e' c'' = None"
    by (rule conjunct1 [OF conjunct2])
  from k have d: "\<exists>draw. randint 1 60 draw = (17 :: int)"
    by (rule conjunct2 [OF conjunct2])
  from w l have z: "task_refresh (last (tasks loaded_coordinator))
        (fresh_env\<lparr>now_gate := datetime_at 1689469684\<rparr>) loaded_coordinator = None"
    by blast
  show ?thesis
    using next_update_scheduled
            [of "fresh_env\<lparr>http := TimedOut\<rparr>" "setup_coordinator [] []" _ _ UpdateFailed]
          next_update_scheduled [of fresh_env loaded_coordinator]
          f h n l j s z d first_refresh
    by simp
qed

text \<open>
  Against C6 as stated. With \<open>refresh_interval\<close> 1300, the first refresh creates a
  task that wakes 1317 seconds after the first snapshot's timestamp. A refresh
  requested in between stores a snapshot issued 600 seconds later. The first task is
  still there; when it wakes, 717 seconds after \<open>last_update_time\<close>, its refresh
  passes the gate of 600 seconds and sends a request, 583 seconds before
  \<open>last_update_time\<close> plus \<open>refresh_interval\<close>.
\<close>

theorem stale_task_fetches_early:
  "hd (tasks second_run) = hd (tasks first_run)
   \<and> armed_at (hd (tasks first_run)) + delay (hd (tasks first_run)) = now_gate wake_env
   \<and> last_update_time second_run = Some (datetime_at 1689469984)
   \<and> refresh_interval second_run = 1300
   \<and> task_refresh (hd (tasks second_run)) wake_env second_run
       = Some (async_update_data wake_env second_run)
   \<and> http_calls (snd (async_update_data wake_env second_run)) = http_calls second_run + 1
   \<and> now_gate wake_env
       < datetime_at 1689469984 + timedelta_seconds (refresh_interval second_run)"
proof -
  have o: "last_update_time second_run = None
             \<or> is_update_interval_passed (now_gate wake_env) second_run"
    by (simp add: second_run_value wake_env_def is_update_interval_passed_def datetime_at_def
        timedelta_seconds_def)
  have t: "task_refresh (hd (tasks second_run)) wake_env second_run
       = Some (async_update_data wake_env second_run)"
    by (simp add: task_refresh_def second_run_value wake_env_def datetime_at_def)
  show ?thesis
    using gate_open_calls [OF o] t
    by (simp add: first_run_value second_run_value wake_env_def datetime_at_def
        timedelta_seconds_def)
qed

section \<open>A request that times out\<close>

text \<open>
  Claim C3, on the code. When the request times out or fails in the transport and a
  fetch is due, the client logs the error and returns \<open>None\<close> without raising; the
  coordinator then calls \<open>WeatherData(**None)\<close>, whose TypeError it logs and raises as
  \<open>UpdateFailed\<close>. The stored snapshot and \<open>last_update_time\<close> stay as they were, but
  the refresh itself ends in an error, and at set-up the entry is reported as not
  ready.
\<close>

theorem transport_failure_raises_update_failed:
  "((http e = TimedOut \<or> http e = ConnectionFailed)
     \<and> (last_update_time c = None \<or> is_update_interval_passed (now_gate e) c)
     \<longrightarrow> fst (async_get_data (uuid4 e) (http e) c) = Inr PNone
       \<and> fst (async_update_data e c) = Inl UpdateFailed
       \<and> data (snd (async_update_data e c)) = data c
       \<and> last_update_time (snd (async_update_data e c)) = last_update_time c
       \<and> logged (snd (async_update_data e c)) =
           logged c @
             [LogError (if http e = TimedOut
                        then ''Timeout error fetching information from %s - %s''
                        else ''Error fetching information from %s - %s''),
              LogError ''Error fetching KNMI data: %s''])
   \<and> (http e = TimedOut \<or> http e = ConnectionFailed
        \<longrightarrow> fst (async_setup_entry e entry_options hdata) = Inl ConfigEntryNotReady)"
proof (intro conjI impI)
  assume a: "(http e = TimedOut \<or> http e = ConnectionFailed)
     \<and> (last_update_time c = None \<or> is_update_interval_passed (now_gate e) c)"
  then have t: "http e = TimedOut \<or> http e = ConnectionFailed"
    and g: "last_update_time c = None \<or> is_update_interval_passed (now_gate e) c"
    by blast+
  show "fst (async_get_data (uuid4 e) (http e) c) = Inr PNone"
    by (simp add: transport_failure_fetch [OF t])
  show "fst (async_update_data e c) = Inl UpdateFailed"
    by (simp add: transport_failure_update [OF t g])
  show "data (snd (async_update_data e c)) = data c"
    by (simp add: transport_failure_update [OF t g])
  show "last_update_time (snd (async_update_data e c)) = last_update_time c"
    by (simp add: transport_failure_update [OF t g])
  show "logged (snd (async_update_data e c)) =
           logged c @
             [LogError (if http e = TimedOut
                        then ''Timeout error fetching information from %s - %s''
                        else ''Error fetching information from %s - %s''),
              LogError ''Error fetching KNMI data: %s'']"
    by (simp add: transport_failure_update [OF t g])
next
  assume t: "http e = TimedOut \<or> http e = ConnectionFailed"
  have "last_update_time (setup_coordinator entry_options hdata) = None"
    by (simp add: setup_coordinator_def init_coordinator_def Let_def)
  then show "fst (async_setup_entry e entry_options hdata) = Inl ConfigEntryNotReady"
    using transport_failure_update [OF t, of "setup_coordinator entry_options hdata"]
    by (simp add: async_setup_entry_def)
qed

text \<open>The first refresh of a new entry, timing out.\<close>

theorem transport_failure_raises_update_failed_witness:
  "http (fresh_env\<lparr>http := TimedOut\<rparr>) = TimedOut
   \<and> last_update_time (setup_coordinator [] []) = None
   \<and> fst (async_update_data (fresh_env\<lparr>http := TimedOut\<rparr>) (setup_coordinator [] []))
       = Inl UpdateFailed
   \<and> fst (async_setup_entry (fresh_env\<lparr>http := TimedOut\<rparr>) [] []) = Inl ConfigEntryNotReady"
proof -
  have a: "http (fresh_env\<lparr>http := TimedOut\<rparr>) = TimedOut
     \<and> last_update_time (setup_coordinator [] []) = None"
    by (simp add: setup_coordinator_def init_coordinator_def)
  show ?thesis
    using transport_failure_raises_update_failed
            [of "fresh_env\<lparr>http := TimedOut\<rparr>" "setup_coordinator [] []" "[]" "[]"] a
    by simp
qed

section \<open>The refresh interval after set-up\<close>

lemma refresh_interval_kept:
  "refresh_interval (snd (async_update_data e c)) = refresh_interval c
   \<and> update_interval (snd (async_update_data e c)) = update_interval c"
proof (cases "async_update_data e c")
  case (Pair r c')
  show ?thesis
  proof (cases r)
    case (Inl ex)
    with Pair failure_path [of e c ex c'] show ?thesis by simp
  next
    case (Inr x)
    show ?thesis
    proof (cases "http_calls c' = http_calls c + 1")
      case False
      have "\<not> (last_update_time c = None \<or> is_update_interval_passed (now_gate e) c)"
      proof
        assume o: "last_update_time c = None \<or> is_update_interval_passed (now_gate e) c"
        from gate_open_calls [OF o] Pair False show False by simp
      qed
      from gate_not_open [OF this] show ?thesis by simp
    next
      case True
      with Pair Inr obtain d c1 wd c3 where
        g: "async_get_data (uuid4 e) (http e) c = (Inr d, c1)" and
        u: "update_timestamp e wd (c1\<lparr>data := Some wd\<rparr>) = (None, c3)" and
        c': "c' = schedule_next_update (now_schedule e) (random_draw e) c3"
        using success_path [of e c x c'] by blast
      from async_get_data_frame [OF g] have m: "world.more c1 = world.more c" by simp
      show ?thesis
        using update_timestamp_frame [OF u] coordinator_fields_of_more [OF m] c' Pair
        by (simp add: schedule_next_update_frame)
    qed
  qed
qed

text \<open>
  Claim C4, on the code. With no \<open>refresh_interval\<close> among the options,
  \<open>_get_refresh_interval\<close> gives \<open>DATA_REFRESH_INTERVAL\<close>, which is 600, and the
  constructor stores it as \<open>refresh_interval\<close> and as the framework's update interval;
  \<open>async_setup_entry\<close> then overwrites \<open>refresh_interval\<close> with its own default of 300,
  and the first refresh keeps that value.
\<close>

theorem unconfigured_refresh_interval:
  "map_of entry_options ''refresh_interval'' = None
     \<longrightarrow> get_refresh_interval entry_options None = DATA_REFRESH_INTERVAL
       \<and> DATA_REFRESH_INTERVAL = 600
       \<and> refresh_interval (init_coordinator entry_options hdata) = 600
       \<and> update_interval (setup_coordinator entry_options hdata) = 600
       \<and> refresh_interval (setup_coordinator entry_options hdata) = 300
       \<and> refresh_interval (snd (async_setup_entry e entry_options hdata)) = 300"
proof
  assume a: "map_of entry_options ''refresh_interval'' = None"
  have s: "refresh_interval (setup_coordinator entry_options hdata) = 300"
    using a by (simp add: setup_coordinator_def Let_def)
  have "snd (async_setup_entry e entry_options hdata)
          = snd (async_update_data e (setup_coordinator entry_options hdata))"
    by (simp add: async_setup_entry_def split: prod.splits sum.splits)
  then have r: "refresh_interval (snd (async_setup_entry e entry_options hdata)) = 300"
    using refresh_interval_kept [of e "setup_coordinator entry_options hdata"] s by simp
  show "get_refresh_interval entry_options None = DATA_REFRESH_INTERVAL
       \<and> DATA_REFRESH_INTERVAL = 600
       \<and> refresh_interval (init_coordinator entry_options hdata) = 600
       \<and> update_interval (setup_coordinator entry_options hdata) = 600
       \<and> refresh_interval (setup_coordinator entry_options hdata) = 300
       \<and> refresh_interval (snd (async_setup_entry e entry_options hdata)) = 300"
    using a s r
    by (simp add: get_refresh_interval_def DATA_REFRESH_INTERVAL_def init_coordinator_def
        setup_coordinator_def Let_def)
qed

text \<open>An entry with no options at all.\<close>

theorem unconfigured_refresh_interval_witness:
  "map_of ([] :: (string \<times> int) list) ''refresh_interval'' = None
   \<and> refresh_interval (init_coordinator [] []) = 600
   \<and> refresh_interval (setup_coordinator [] []) = 300
   \<and> refresh_interval (snd (async_setup_entry fresh_env [] [])) = 300"
  using unconfigured_refresh_interval [of "[]" "[]" fresh_env] by simp

section \<open>The quota notice\<close>

text \<open>What \<open>notification_exists\<close> tests, and what creating and dismissing do to the live notices.\<close>

lemma notification_exists_iff:
  "notification_exists w \<longleftrightarrow>
     (\<exists>i ns n. notification_id w = Some i
        \<and> map_of (hass_data w) ''persistent_notification'' = Some (HDict ns)
        \<and> map_of ns i = Some (Some n))"
  by (auto simp: notification_exists_def Let_def split: option.splits hobj.splits)

lemma notification_exists_live:
  "notification_exists w \<longleftrightarrow> (\<exists>i. notification_id w = Some i \<and> i \<in> live_notices w)"
  by (auto simp: notification_exists_iff live_notices_def split: option.splits hobj.splits)

lemma notification_exists_cong:
  "notification_id w' = notification_id w \<Longrightarrow> hass_data w' = hass_data w
     \<Longrightarrow> notification_exists w' = notification_exists w"
  by (simp add: notification_exists_iff)

lemma live_notices_hass_data:
  "hass_data w' = hass_data w \<Longrightarrow> live_notices w' = live_notices w"
  by (simp add: live_notices_def)

lemma live_create:
  assumes "hass_data w' = async_create_notification (hass_data w) m t u"
  shows "live_notices w' =
           (if map_of (hass_data w) ''persistent_notification'' = Some HOther
            then live_notices w else insert u (live_notices w))"
  using assms
  by (auto simp: live_notices_def async_create_notification_def update_conv'
      split: option.splits hobj.splits if_splits)

lemma live_dismiss:
  assumes "hass_data w' = async_dismiss_notification (hass_data w) i"
  shows "live_notices w' = live_notices w - {i}"
  using assms
  by (auto simp: live_notices_def async_dismiss_notification_def update_conv' delete_conv'
      split: option.splits hobj.splits if_splits)

lemma live_not_dict:
  "map_of (hass_data w) ''persistent_notification'' = Some HOther \<Longrightarrow> live_notices w = {}"
  by (simp add: live_notices_def)

lemma notification_exists_calls:
  "notification_exists (w\<lparr>http_calls := n\<rparr>) = notification_exists w"
  by (simp add: notification_exists_iff)

text \<open>
  \<open>_handle_notification_dismissal\<close> written out: with a notice to dismiss, the notice is
  removed and the \<open>await\<close> raises before the id is cleared.
\<close>

lemma dismissal_cases:
  "handle_notification_dismissal w =
     (if notification_id w \<noteq> None \<and> notification_exists w
      then (Some TypeError,
            w\<lparr>hass_data :=
                async_dismiss_notification (hass_data w) (the (notification_id w))\<rparr>)
      else (None, w))"
  by (simp add: handle_notification_dismissal_def py_await_def Let_def)

lemma dismissal_id:
  "handle_notification_dismissal w = (r, w') \<Longrightarrow> notification_id w' = notification_id w"
  by (auto simp: dismissal_cases split: if_splits)

lemma dismissal_gone: "\<not> notification_exists (snd (handle_notification_dismissal w))"
proof (cases "notification_id w \<noteq> None \<and> notification_exists w")
  case False
  have "notification_id w = None \<Longrightarrow> \<not> notification_exists w"
    by (simp add: notification_exists_iff)
  with False have "\<not> notification_exists w" by blast
  with False show ?thesis by (simp add: dismissal_cases)
next
  case True
  then obtain i where i: "notification_id w = Some i" by auto
  let ?w' = "w\<lparr>hass_data := async_dismiss_notification (hass_data w) i\<rparr>"
  have "hass_data ?w' = async_dismiss_notification (hass_data w) i" by simp
  from live_dismiss [OF this] have "i \<notin> live_notices ?w'" by simp
  then have "\<not> notification_exists ?w'"
    using i by (simp add: notification_exists_live)
  then show ?thesis using True i by (simp add: dismissal_cases)
qed

text \<open>Every step of the client keeps \<open>at_most_own\<close>, and so does every run.\<close>

lemma handle_error_responses_own:
  assumes "at_most_own L w" "handle_error_responses u txt w = (r, w')"
  shows "at_most_own L w'"
proof (cases "quota_exceeded txt \<and> \<not> notification_exists w")
  case False
  then have "w' = w"
    using assms(2) by (auto simp: handle_error_responses_def quota_exceeded_def split: if_splits)
  with assms(1) show ?thesis by simp
next
  case True
  then have w': "w' = w\<lparr>notification_id := Some u,
                hass_data :=
                  async_create_notification (hass_data w)
                    ''Het maximum aantal van 300 API verzoeken per dag voor KNMI is bereikt.''
                    ''API limiet bereikt'' u\<rparr>"
    using assms(2) by (auto simp: handle_error_responses_def quota_exceeded_def split: if_splits)
  have old: "live_notices w \<subseteq> L"
    using assms(1) True by (auto simp: at_most_own_def notification_exists_live)
  have "live_notices w' \<subseteq> insert u (live_notices w)"
    using live_create [of w' w _ _ u] w' by (auto split: if_splits)
  with old w' show ?thesis by (auto simp: at_most_own_def)
qed

lemma dismissal_own:
  assumes "at_most_own L w" "handle_notification_dismissal w = (r, w')"
  shows "at_most_own L w'"
proof (cases "notification_id w \<noteq> None \<and> notification_exists w")
  case False
  then have "w' = w"
    using assms(2) by (auto simp: dismissal_cases)
  then show ?thesis using assms(1) by simp
next
  case True
  then obtain i where i: "notification_id w = Some i" by auto
  have h: "hass_data w' = async_dismiss_notification (hass_data w) i"
    and n: "notification_id w' = Some i"
    using True i assms(2) by (auto simp: dismissal_cases)
  from live_dismiss [OF h] assms(1) i n show ?thesis
    by (auto simp: at_most_own_def)
qed

lemma at_most_own_cong:
  "notification_id w' = notification_id w \<Longrightarrow> hass_data w' = hass_data w
     \<Longrightarrow> at_most_own L w' = at_most_own L w"
  by (simp add: at_most_own_def live_notices_def)

lemma api_try_response:
  assumes "handle_error_responses u (body resp) (w\<lparr>http_calls := http_calls w + 1\<rparr>) = (r1, w1)"
    and "parse_json_response resp w1 = (r2, w2)"
  shows "api_try u (Response resp) w =
      (case r1 of
         Some ex \<Rightarrow> (Inl ex, w1)
       | None \<Rightarrow>
           (case r2 of
              Inl ex \<Rightarrow> (Inl ex, w2)
            | Inr d \<Rightarrow>
                (case first_liveweer d of
                   Inl ex \<Rightarrow> (Inl ex, w2)
                 | Inr liveweer \<Rightarrow>
                     (case handle_notification_dismissal w2 of
                        (Some e, w3) \<Rightarrow> (Inl e, w3)
                      | (None, w3) \<Rightarrow> (Inr liveweer, w3)))))"
  unfolding api_try_def Let_def transport.case assms(1) prod.case
  by (cases r1; cases r2; simp add: assms(2))

lemma api_try_cases:
  assumes "api_try u (Response resp) w = (r, w')"
    and "handle_error_responses u (body resp) (w\<lparr>http_calls := http_calls w + 1\<rparr>) = (r1, w1)"
    and "parse_json_response resp w1 = (r2, w2)"
  shows "w' = w1 \<or> w' = w2 \<or> w' = snd (handle_notification_dismissal w2)"
proof -
  obtain r3 w3 where d: "handle_notification_dismissal w2 = (r3, w3)"
    by (cases "handle_notification_dismissal w2")
  show ?thesis
    using assms(1) unfolding api_try_response [OF assms(2,3)] d
    by (cases r1; cases r2; cases r3; auto split: sum.splits)
qed

text \<open>
  An invariant of the three steps of a fetch is an invariant of the fetch, and of
  every run.
\<close>

lemma api_wrapper_invariant:
  assumes "P w"
    and calls: "\<And>w n. P w \<Longrightarrow> P (w\<lparr>http_calls := n\<rparr>)"
    and logs: "\<And>w l. P w \<Longrightarrow> P (w\<lparr>logged := l\<rparr>)"
    and errors: "\<And>w txt r w'. P w \<Longrightarrow> handle_error_responses u txt w = (r, w') \<Longrightarrow> P w'"
    and dismissal: "\<And>w r w'. P w \<Longrightarrow> handle_notification_dismissal w = (r, w') \<Longrightarrow> P w'"
    and "api_wrapper u t w = (r, w')"
  shows "P w'"
proof -
  let ?w = "w\<lparr>http_calls := http_calls w + 1\<rparr>"
  have s: "P ?w" using assms(1) by (rule calls)
  obtain r0 w0 where t: "api_try u t w = (r0, w0)" by (cases "api_try u t w")
  have p0: "P w0"
  proof (cases t)
    case TimedOut
    have "api_try u TimedOut w = (Inl TimeoutError, ?w)" by (simp add: api_try_def Let_def)
    with t TimedOut have "w0 = ?w" by simp
    with s show ?thesis by simp
  next
    case ConnectionFailed
    have "api_try u ConnectionFailed w = (Inl ClientError, ?w)" by (simp add: api_try_def Let_def)
    with t ConnectionFailed have "w0 = ?w" by simp
    with s show ?thesis by simp
  next
    case (Response resp)
    obtain r1 w1 where h: "handle_error_responses u (body resp) ?w = (r1, w1)"
      by (cases "handle_error_responses u (body resp) ?w")
    from errors [OF s h] have o1: "P w1" .
    obtain r2 w2 where p: "parse_json_response resp w1 = (r2, w2)"
      by (cases "parse_json_response resp w1")
    have "w2 = w1 \<or> w2 = w1\<lparr>logged := logged w1 @ [LogError ''Error decoding JSON response - %s: %s'']\<rparr>"
      using p by (auto simp: parse_json_response_def log_error_def split: if_splits option.splits)
    with o1 logs have o2: "P w2" by auto
    obtain r3 w3 where d: "handle_notification_dismissal w2 = (r3, w3)"
      by (cases "handle_notification_dismissal w2")
    from dismissal [OF o2 d] have o3: "P (snd (handle_notification_dismissal w2))"
      by (simp add: d)
    have a: "api_try u (Response resp) w = (r0, w0)" using t Response by simp
    from api_try_cases [OF a h p]
    show ?thesis
    proof (elim disjE)
      assume "w0 = w1" with o1 show ?thesis by simp
    next
      assume "w0 = w2" with o2 show ?thesis by simp
    next
      assume "w0 = snd (handle_notification_dismissal w2)" with o3 show ?thesis by simp
    qed
  qed
  show ?thesis
  proof (cases r0)
    case (Inr d)
    with assms(6) t have "w' = w0" by (simp add: api_wrapper_def)
    with p0 show ?thesis by simp
  next
    case (Inl ex)
    with assms(6) t have "api_except ex w0 = (r, w')" by (simp add: api_wrapper_def)
    then have "\<exists>l. w' = w0 \<or> w' = w0\<lparr>logged := l\<rparr>"
      by (auto simp: api_except_def log_error_def split: if_splits)
    with p0 logs show ?thesis by auto
  qed
qed

lemma api_wrapper_own:
  assumes "at_most_own L w" "api_wrapper u t w = (r, w')"
  shows "at_most_own L w'"
proof (rule api_wrapper_invariant [where P = "at_most_own L", OF assms(1) _ _ _ _ assms(2)])
  show "\<And>w n. at_most_own L w \<Longrightarrow> at_most_own L (w\<lparr>http_calls := n\<rparr>)"
    by (simp add: at_most_own_def live_notices_def)
  show "\<And>w l. at_most_own L w \<Longrightarrow> at_most_own L (w\<lparr>logged := l\<rparr>)"
    by (simp add: at_most_own_def live_notices_def)
  show "\<And>w txt r w'. at_most_own L w \<Longrightarrow> handle_error_responses u txt w = (r, w')
          \<Longrightarrow> at_most_own L w'"
    by (rule handle_error_responses_own)
  show "\<And>w r w'. at_most_own L w \<Longrightarrow> handle_notification_dismissal w = (r, w')
          \<Longrightarrow> at_most_own L w'"
    by (rule dismissal_own)
qed

lemma fetches_own:
  "at_most_own L w \<Longrightarrow> at_most_own L (fetches fs w)"
proof (induction fs arbitrary: w)
  case Nil
  then show ?case by simp
next
  case (Cons f fs)
  obtain u t where f: "f = (u, t)" by (cases f)
  obtain r w' where a: "api_wrapper u t w = (r, w')" by (cases "api_wrapper u t w")
  from api_wrapper_own [OF Cons.prems a] have "at_most_own L w'" .
  from Cons.IH [OF this] f a show ?case by simp
qed

text \<open>No step of the client sets \<open>notification_id\<close> back to \<open>None\<close>.\<close>

lemma api_wrapper_id_kept:
  assumes "notification_id w \<noteq> None" "api_wrapper u t w = (r, w')"
  shows "notification_id w' \<noteq> None"
proof (rule api_wrapper_invariant
         [where P = "\<lambda>w. notification_id w \<noteq> None", OF assms(1) _ _ _ _ assms(2)])
  show "\<And>w n. notification_id w \<noteq> None \<Longrightarrow> notification_id (w\<lparr>http_calls := n\<rparr>) \<noteq> None"
    by simp
  show "\<And>w l. notification_id w \<noteq> None \<Longrightarrow> notification_id (w\<lparr>logged := l\<rparr>) \<noteq> None"
    by simp
  show "\<And>w txt r w'. notification_id w \<noteq> None \<Longrightarrow> handle_error_responses u txt w = (r, w')
          \<Longrightarrow> notification_id w' \<noteq> None"
    by (auto simp: handle_error_responses_def split: if_splits)
  show "\<And>w r w'. notification_id w \<noteq> None \<Longrightarrow> handle_notification_dismissal w = (r, w')
          \<Longrightarrow> notification_id w' \<noteq> None"
    by (simp add: dismissal_id)
qed

lemma fetches_id_kept:
  "notification_id w \<noteq> None \<Longrightarrow> notification_id (fetches fs w) \<noteq> None"
proof (induction fs arbitrary: w)
  case Nil
  then show ?case by simp
next
  case (Cons f fs)
  obtain u t where f: "f = (u, t)" by (cases f)
  obtain r w' where a: "api_wrapper u t w = (r, w')" by (cases "api_wrapper u t w")
  from api_wrapper_id_kept [OF Cons.prems a] have "notification_id w' \<noteq> None" .
  from Cons.IH [OF this] f a show ?case by simp
qed

text \<open>A response with the quota marker, and a response that carries a record.\<close>

lemma quota_fetch:
  assumes "quota_exceeded (body r)"
  shows "api_wrapper u (Response r) w =
           (Inl RequestsExceededError,
            log_error ''API Call Limit! - %s''
              (if \<not> notification_exists w
               then w\<lparr>http_calls := http_calls w + 1, notification_id := Some u,
                      hass_data :=
                        async_create_notification (hass_data w)
                          ''Het maximum aantal van 300 API verzoeken per dag voor KNMI is bereikt.''
                          ''API limiet bereikt'' u\<rparr>
               else w\<lparr>http_calls := http_calls w + 1\<rparr>))"
proof -
  have n: "notification_exists (w\<lparr>http_calls := http_calls w + 1\<rparr>) = notification_exists w"
    by (simp add: notification_exists_iff)
  show ?thesis
    using assms n
    by (simp add: api_wrapper_def api_try_def Let_def handle_error_responses_def
        quota_exceeded_def api_except_def)
qed

lemma record_fetch:
  assumes "\<not> contains ''Vraag eerst een API-key op'' (body r)"
    "\<not> contains ''Dagelijkse limiet'' (body r)"
    "\<not> contains ''De server ondervindt een probleem'' (body r)"
    "content_type r = Some ''application/json''" "status r = 200"
    "body_json r = Some dj" "first_liveweer dj = Inr d"
  shows "api_wrapper u (Response r) w =
           (if notification_id w \<noteq> None \<and> notification_exists w
            then (Inl TypeError,
                  w\<lparr>http_calls := http_calls w + 1,
                    hass_data :=
                      async_dismiss_notification (hass_data w) (the (notification_id w))\<rparr>)
            else (Inr d, w\<lparr>http_calls := http_calls w + 1\<rparr>))"
  using assms
  by (simp add: api_wrapper_def api_try_def handle_error_responses_def
      parse_json_response_def dismissal_cases notification_exists_calls api_except_def Let_def)

lemma fetched_record:
  assumes "fst (api_wrapper u t w) = Inr d" "d \<noteq> PNone"
  shows "\<exists>r dj. t = Response r
           \<and> \<not> contains ''Vraag eerst een API-key op'' (body r)
           \<and> \<not> contains ''Dagelijkse limiet'' (body r)
           \<and> \<not> contains ''De server ondervindt een probleem'' (body r)
           \<and> content_type r = Some ''application/json'' \<and> status r = 200
           \<and> body_json r = Some dj \<and> first_liveweer dj = Inr d"
proof -
  obtain r0 w0 where t0: "api_try u t w = (r0, w0)" by (cases "api_try u t w")
  have r0: "r0 = Inr d"
  proof (cases r0)
    case (Inr x)
    with assms(1) t0 show ?thesis by (simp add: api_wrapper_def)
  next
    case (Inl ex)
    with assms t0 show ?thesis
      by (auto simp: api_wrapper_def api_except_def split: if_splits)
  qed
  let ?w = "w\<lparr>http_calls := http_calls w + 1\<rparr>"
  show ?thesis
  proof (cases t)
    case TimedOut
    with t0 r0 show ?thesis by (simp add: api_try_def Let_def)
  next
    case ConnectionFailed
    with t0 r0 show ?thesis by (simp add: api_try_def Let_def)
  next
    case (Response resp)
    obtain r1 w1 where h: "handle_error_responses u (body resp) ?w = (r1, w1)"
      by (cases "handle_error_responses u (body resp) ?w")
    obtain r2 w2 where p: "parse_json_response resp w1 = (r2, w2)"
      by (cases "parse_json_response resp w1")
    obtain r3 w3 where dm: "handle_notification_dismissal w2 = (r3, w3)"
      by (cases "handle_notification_dismissal w2")
    from t0 r0 Response have a: "api_try u (Response resp) w = (Inr d, w0)" by simp
    have hn: "r1 = None"
      using a unfolding api_try_response [OF h p] by (cases r1) simp_all
    from a obtain dj where dj: "r2 = Inr dj"
      unfolding api_try_response [OF h p] hn by (cases r2) simp_all
    have fl: "first_liveweer dj = Inr d"
      using a unfolding api_try_response [OF h p] hn dj dm
      by (cases "first_liveweer dj"; cases r3) simp_all
    have m: "\<not> contains ''Vraag eerst een API-key op'' (body resp)
           \<and> \<not> contains ''Dagelijkse limiet'' (body resp)
           \<and> \<not> contains ''De server ondervindt een probleem'' (body resp)"
      using h hn by (auto simp: handle_error_responses_def split: if_splits)
    have "first_liveweer PNone = Inl ApiError" by (simp add: first_liveweer_def)
    with fl have "dj \<noteq> PNone" by auto
    then have j: "content_type resp = Some ''application/json'' \<and> status resp = 200
           \<and> body_json resp = Some dj"
      using p dj by (auto simp: parse_json_response_def split: if_splits option.splits)
    from Response m j fl show ?thesis by blast
  qed
qed

lemma quota_response_exceeded: "quota_exceeded (body quota_response)"
  by (simp add: quota_exceeded_def quota_response_def)

lemma fresh_no_notice:
  "notification_id (init_coordinator [] []) = None
   \<and> live_notices (init_coordinator [] []) = {}
   \<and> map_of (hass_data (init_coordinator [] [])) ''persistent_notification'' \<noteq> Some HOther
   \<and> \<not> notification_exists (init_coordinator [] [])"
  by (simp add: init_coordinator_def live_notices_def notification_exists_iff)

lemma first_quota_world:
  "notification_id (fetches [(u, Response quota_response)] (init_coordinator [] [])) = Some u
   \<and> hass_data (fetches [(u, Response quota_response)] (init_coordinator [] []))
       = [(''persistent_notification'',
           HDict [(u, Some \<lparr>message =
                      ''Het maximum aantal van 300 API verzoeken per dag voor KNMI is bereikt.'',
                    title = ''API limiet bereikt''\<rparr>)])]"
  using fresh_no_notice
  by (simp add: quota_fetch [OF quota_response_exceeded] log_error_def
      async_create_notification_def init_coordinator_def)

text \<open>
  Claim C5, on the code. The notification service is taken by its contract (creating
  adds the notice under the given id to the dictionary that \<open>notification_exists\<close>
  reads, dismissing removes it and returns \<open>None\<close>). From a client that holds no
  notification id, after every run of fetches the live notices are those that were
  there before plus at most the one whose id the client holds; started without
  notices, at most one is live. Two consecutive quota-exceeded responses, the first
  met with no notice active, both raise \<open>RequestsExceededError\<close> and create exactly one
  notice, under the first uuid. But while that notice is active, a response that a
  client without notice would return a record for does not give a successful fetch:
  the notice is dismissed, the \<open>await\<close> of the dismissal's result raises TypeError,
  the fetch raises it, the stored id is not cleared, and the coordinator's refresh
  fails with \<open>UpdateFailed\<close> and keeps the old snapshot. Only the fetch after that
  returns the record. No run of fetches ever clears a stored id.
\<close>

theorem quota_notice_dismissal_raises:
  "(notification_id w = None
      \<longrightarrow> live_notices (fetches fs w)
            \<subseteq> live_notices w \<union> set_option (notification_id (fetches fs w)))
   \<and> (notification_id w = None \<and> live_notices w = {}
      \<longrightarrow> card (live_notices (fetches fs w)) \<le> 1)
   \<and> (quota_exceeded (body r1) \<and> quota_exceeded (body r2)
       \<and> map_of (hass_data w) ''persistent_notification'' \<noteq> Some HOther
       \<and> \<not> notification_exists w
      \<longrightarrow> fst (api_wrapper u1 (Response r1) w) = Inl RequestsExceededError
          \<and> notification_id (fetches [(u1, Response r1)] w) = Some u1
          \<and> live_notices (fetches [(u1, Response r1)] w) = insert u1 (live_notices w)
          \<and> notification_exists (fetches [(u1, Response r1)] w)
          \<and> fst (api_wrapper u2 (Response r2) (fetches [(u1, Response r1)] w))
              = Inl RequestsExceededError
          \<and> notification_id (fetches [(u1, Response r1), (u2, Response r2)] w) = Some u1
          \<and> hass_data (fetches [(u1, Response r1), (u2, Response r2)] w)
              = hass_data (fetches [(u1, Response r1)] w)
          \<and> live_notices (fetches [(u1, Response r1), (u2, Response r2)] w)
              = insert u1 (live_notices w))
   \<and> (notification_id w = Some i \<and> notification_exists w
       \<and> fst (api_wrapper u t (w\<lparr>notification_id := None\<rparr>)) = Inr d \<and> d \<noteq> PNone
      \<longrightarrow> fst (api_wrapper u t w) = Inl TypeError
          \<and> notification_id (snd (api_wrapper u t w)) = Some i
          \<and> live_notices (snd (api_wrapper u t w)) = live_notices w - {i}
          \<and> \<not> notification_exists (snd (api_wrapper u t w))
          \<and> fst (api_wrapper u' t (snd (api_wrapper u t w))) = Inr d
          \<and> notification_id (snd (api_wrapper u' t (snd (api_wrapper u t w)))) = Some i)
   \<and> (notification_id c = Some i \<and> notification_exists c
       \<and> (last_update_time c = None \<or> is_update_interval_passed (now_gate e) c)
       \<and> fst (api_wrapper (uuid4 e) (http e) (c\<lparr>notification_id := None\<rparr>)) = Inr d
       \<and> d \<noteq> PNone
      \<longrightarrow> fst (async_update_data e c) = Inl UpdateFailed
          \<and> data (snd (async_update_data e c)) = data c
          \<and> notification_id (snd (async_update_data e c)) = Some i)
   \<and> (notification_id w \<noteq> None \<longrightarrow> notification_id (fetches fs w) \<noteq> None)"
proof (intro conjI impI)
  assume n: "notification_id w = None"
  then have "at_most_own (live_notices w) w" by (simp add: at_most_own_def)
  from fetches_own [OF this, of fs]
  show "live_notices (fetches fs w)
            \<subseteq> live_notices w \<union> set_option (notification_id (fetches fs w))"
    by (simp add: at_most_own_def)
next
  assume n: "notification_id w = None \<and> live_notices w = {}"
  then have "at_most_own {} w" by (simp add: at_most_own_def)
  from fetches_own [OF this, of fs]
  have s: "live_notices (fetches fs w) \<subseteq> set_option (notification_id (fetches fs w))"
    by (simp add: at_most_own_def)
  have "card (set_option (notification_id (fetches fs w))) \<le> 1"
    by (cases "notification_id (fetches fs w)") simp_all
  moreover have "card (live_notices (fetches fs w))
      \<le> card (set_option (notification_id (fetches fs w)))"
    using s by (intro card_mono) simp_all
  ultimately show "card (live_notices (fetches fs w)) \<le> 1" by linarith
next
  assume a: "quota_exceeded (body r1) \<and> quota_exceeded (body r2)
       \<and> map_of (hass_data w) ''persistent_notification'' \<noteq> Some HOther
       \<and> \<not> notification_exists w"
  let ?w1 = "fetches [(u1, Response r1)] w"
  let ?created = "w\<lparr>http_calls := http_calls w + 1, notification_id := Some u1,
                      hass_data :=
                        async_create_notification (hass_data w)
                          ''Het maximum aantal van 300 API verzoeken per dag voor KNMI is bereikt.''
                          ''API limiet bereikt'' u1\<rparr>"
  have w1: "?w1 = log_error ''API Call Limit! - %s'' ?created"
    using a by (simp add: quota_fetch)
  show f1: "fst (api_wrapper u1 (Response r1) w) = Inl RequestsExceededError"
    using a by (simp add: quota_fetch)
  show n1: "notification_id ?w1 = Some u1"
    unfolding w1 by (simp add: log_error_def)
  have h1: "hass_data ?w1 = async_create_notification (hass_data w)
                          ''Het maximum aantal van 300 API verzoeken per dag voor KNMI is bereikt.''
                          ''API limiet bereikt'' u1"
    unfolding w1 by (simp add: log_error_def)
  show l1: "live_notices ?w1 = insert u1 (live_notices w)"
    using live_create [OF h1] a by simp
  show e1: "notification_exists ?w1"
    using n1 l1 by (simp add: notification_exists_live)
  show "fst (api_wrapper u2 (Response r2) ?w1) = Inl RequestsExceededError"
    using a by (simp add: quota_fetch)
  have w2: "fetches [(u1, Response r1), (u2, Response r2)] w
      = log_error ''API Call Limit! - %s'' (?w1\<lparr>http_calls := http_calls ?w1 + 1\<rparr>)"
    using a e1 quota_fetch [of r2 u2 ?w1] by simp
  show "notification_id (fetches [(u1, Response r1), (u2, Response r2)] w) = Some u1"
    unfolding w2 using n1 by (simp add: log_error_def)
  show h2: "hass_data (fetches [(u1, Response r1), (u2, Response r2)] w) = hass_data ?w1"
    unfolding w2 by (simp add: log_error_def)
  show "live_notices (fetches [(u1, Response r1), (u2, Response r2)] w)
      = insert u1 (live_notices w)"
    using live_notices_hass_data [OF h2] l1 by simp
next
  assume a: "notification_id w = Some i \<and> notification_exists w
       \<and> fst (api_wrapper u t (w\<lparr>notification_id := None\<rparr>)) = Inr d \<and> d \<noteq> PNone"
  then obtain r dj where t: "t = Response r" and
    f: "\<not> contains ''Vraag eerst een API-key op'' (body r)"
       "\<not> contains ''Dagelijkse limiet'' (body r)"
       "\<not> contains ''De server ondervindt een probleem'' (body r)"
       "content_type r = Some ''application/json''" "status r = 200"
       "body_json r = Some dj" "first_liveweer dj = Inr d"
    using fetched_record [of u t "w\<lparr>notification_id := None\<rparr>" d] by blast
  let ?w' = "w\<lparr>http_calls := http_calls w + 1,
               hass_data := async_dismiss_notification (hass_data w) i\<rparr>"
  have r: "api_wrapper u t w = (Inl TypeError, ?w')"
    unfolding t record_fetch [OF f] using a by simp
  have h: "hass_data ?w' = async_dismiss_notification (hass_data w) i" by simp
  have l: "live_notices ?w' = live_notices w - {i}"
    by (rule live_dismiss [OF h])
  have n: "\<not> notification_exists ?w'"
    using l a by (simp add: notification_exists_live)
  show "fst (api_wrapper u t w) = Inl TypeError" by (simp add: r)
  show "notification_id (snd (api_wrapper u t w)) = Some i" using a by (simp add: r)
  show "live_notices (snd (api_wrapper u t w)) = live_notices w - {i}"
    unfolding r using l by simp
  show "\<not> notification_exists (snd (api_wrapper u t w))"
    unfolding r using n by simp
  have r': "api_wrapper u' t ?w' = (Inr d, ?w'\<lparr>http_calls := http_calls ?w' + 1\<rparr>)"
    unfolding t record_fetch [OF f] using n by simp
  show "fst (api_wrapper u' t (snd (api_wrapper u t w))) = Inr d"
    using r' unfolding r by simp
  show "notification_id (snd (api_wrapper u' t (snd (api_wrapper u t w)))) = Some i"
    using r' a unfolding r by simp
next
  assume a: "notification_id c = Some i \<and> notification_exists c
       \<and> (last_update_time c = None \<or> is_update_interval_passed (now_gate e) c)
       \<and> fst (api_wrapper (uuid4 e) (http e) (c\<lparr>notification_id := None\<rparr>)) = Inr d
       \<and> d \<noteq> PNone"
  then have o: "last_update_time c = None \<or> is_update_interval_passed (now_gate e) c"
    by blast
  from a obtain r dj where t: "http e = Response r" and
    f: "\<not> contains ''Vraag eerst een API-key op'' (body r)"
       "\<not> contains ''Dagelijkse limiet'' (body r)"
       "\<not> contains ''De server ondervindt een probleem'' (body r)"
       "content_type r = Some ''application/json''" "status r = 200"
       "body_json r = Some dj" "first_liveweer dj = Inr d"
    using fetched_record [of "uuid4 e" "http e" "c\<lparr>notification_id := None\<rparr>" d] by blast
  let ?c' = "c\<lparr>http_calls := http_calls c + 1,
               hass_data := async_dismiss_notification (hass_data c) i\<rparr>"
  have g: "async_get_data (uuid4 e) (http e) c = (Inl TypeError, ?c')"
    unfolding async_get_data_def t record_fetch [OF f] using a by simp
  have u: "async_update_data e c = update_failed ?c'"
    unfolding gate_open [OF o g] by simp
  show "fst (async_update_data e c) = Inl UpdateFailed"
    unfolding u by (simp add: update_failed_def)
  show "data (snd (async_update_data e c)) = data c"
    unfolding u by (simp add: update_failed_def log_error_def)
  show "notification_id (snd (async_update_data e c)) = Some i"
    unfolding u using a by (simp add: update_failed_def log_error_def)
next
  assume "notification_id w \<noteq> None"
  then show "notification_id (fetches fs w) \<noteq> None" by (rule fetches_id_kept)
qed

text \<open>
  A new client: two quota responses, then the sample payload twice; and the first
  refresh of a coordinator whose client has met one quota response.
\<close>

theorem quota_notice_dismissal_raises_witness:
  "notification_id (init_coordinator [] []) = None
   \<and> live_notices (init_coordinator [] []) = {}
   \<and> quota_exceeded (body quota_response)
   \<and> \<not> notification_exists (init_coordinator [] [])
   \<and> card (live_notices
        (fetches [(''u1'', Response quota_response), (''u2'', Response quota_response)]
           (init_coordinator [] []))) \<le> 1
   \<and> notification_id
        (fetches [(''u1'', Response quota_response), (''u2'', Response quota_response)]
           (init_coordinator [] [])) = Some ''u1''
   \<and> live_notices
        (fetches [(''u1'', Response quota_response), (''u2'', Response quota_response)]
           (init_coordinator [] [])) = {''u1''}
   \<and> fst (api_wrapper ''u3'' (Response testdata_response)
            ((fetches [(''u1'', Response quota_response), (''u2'', Response quota_response)]
                (init_coordinator [] []))\<lparr>notification_id := None\<rparr>))
        = Inr (PDict testdata_liveweer)
   \<and> fst (api_wrapper ''u3'' (Response testdata_response)
            (fetches [(''u1'', Response quota_response), (''u2'', Response quota_response)]
               (init_coordinator [] [])))
        = Inl TypeError
   \<and> notification_id
        (fetches [(''u1'', Response quota_response), (''u2'', Response quota_response),
                  (''u3'', Response testdata_response)]
           (init_coordinator [] [])) = Some ''u1''
   \<and> live_notices
        (fetches [(''u1'', Response quota_response), (''u2'', Response quota_response),
                  (''u3'', Response testdata_response)]
           (init_coordinator [] [])) = {}
   \<and> fst (api_wrapper ''u4'' (Response testdata_response)
            (fetches [(''u1'', Response quota_response), (''u2'', Response quota_response),
                      (''u3'', Response testdata_response)]
               (init_coordinator [] [])))
        = Inr (PDict testdata_liveweer)
   \<and> notification_id
        (fetches [(''u1'', Response quota_response), (''u2'', Response quota_response),
                  (''u3'', Response testdata_response), (''u4'', Response testdata_response)]
           (init_coordinator [] [])) = Some ''u1''
   \<and> last_update_time (fetches [(''u1'', Response quota_response)] (setup_coordinator [] []))
        = None
   \<and> fst (async_update_data fresh_env
            (fetches [(''u1'', Response quota_response)] (setup_coordinator [] [])))
        = Inl UpdateFailed
   \<and> data (snd (async_update_data fresh_env
                  (fetches [(''u1'', Response quota_response)] (setup_coordinator [] []))))
        = None"
proof -
  define w0 where "w0 = init_coordinator [] []"
  define w2 where
    "w2 = fetches [(''u1'', Response quota_response), (''u2'', Response quota_response)] w0"
  define w3 where "w3 = snd (api_wrapper ''u3'' (Response testdata_response) w2)"
  define w4 where "w4 = snd (api_wrapper ''u4'' (Response testdata_response) w3)"
  have f3: "fetches [(''u1'', Response quota_response), (''u2'', Response quota_response),
                  (''u3'', Response testdata_response)] w0 = w3"
    by (simp add: w3_def w2_def)
  have f4: "fetches [(''u1'', Response quota_response), (''u2'', Response quota_response),
                  (''u3'', Response testdata_response), (''u4'', Response testdata_response)] w0
              = w4"
    by (simp add: w4_def w3_def w2_def)
  have a: "notification_id w0 = None \<and> live_notices w0 = {}
      \<and> map_of (hass_data w0) ''persistent_notification'' \<noteq> Some HOther
      \<and> \<not> notification_exists w0"
    unfolding w0_def by (rule fresh_no_notice)
  note q = quota_response_exceeded
  from quota_notice_dismissal_raises
         [where w = w0
            and fs = "[(''u1'', Response quota_response), (''u2'', Response quota_response)]"
            and ?r1.0 = quota_response and ?r2.0 = quota_response
            and ?u1.0 = "''u1''" and ?u2.0 = "''u2''"] a q
  have c: "card (live_notices w2) \<le> 1" and n2: "notification_id w2 = Some ''u1''"
    and l2: "live_notices w2 = {''u1''}"
    unfolding w2_def by simp_all
  have e2: "notification_exists w2"
    using n2 l2 by (simp add: notification_exists_live)
  have s: "fst (api_wrapper ''u3'' (Response testdata_response) (w2\<lparr>notification_id := None\<rparr>))
             = Inr (PDict testdata_liveweer)"
    using sample_fetch [of "''\"1689469384\"''" "w2\<lparr>notification_id := None\<rparr>" "''u3''"
                           "PStr ''1689469384''"]
    by (simp add: async_get_data_def testdata_response_same [symmetric] testdata_with_same)
  from quota_notice_dismissal_raises
         [where w = w2 and i = "''u1''" and u = "''u3''" and t = "Response testdata_response"
            and d = "PDict testdata_liveweer" and u' = "''u4''"] n2 e2 s l2
  have t: "fst (api_wrapper ''u3'' (Response testdata_response) w2) = Inl TypeError
      \<and> notification_id w3 = Some ''u1'' \<and> live_notices w3 = {}
      \<and> fst (api_wrapper ''u4'' (Response testdata_response) w3) = Inr (PDict testdata_liveweer)
      \<and> notification_id w4 = Some ''u1''"
    unfolding w3_def w4_def by simp
  define c1 where "c1 = fetches [(''u1'', Response quota_response)] (setup_coordinator [] [])"
  have c1: "c1 = (setup_coordinator [] [])
      \<lparr>http_calls := 1, notification_id := Some ''u1'',
       hass_data :=
         [(''persistent_notification'',
           HDict [(''u1'', Some \<lparr>message =
                      ''Het maximum aantal van 300 API verzoeken per dag voor KNMI is bereikt.'',
                    title = ''API limiet bereikt''\<rparr>)])],
       logged := [LogError ''API Call Limit! - %s'']\<rparr>"
    unfolding c1_def
    by (simp add: quota_fetch [OF quota_response_exceeded] log_error_def
        async_create_notification_def setup_coordinator_def init_coordinator_def
        notification_exists_iff)
  have k: "notification_id c1 = Some ''u1'' \<and> notification_exists c1
      \<and> last_update_time c1 = None \<and> data c1 = None"
    unfolding c1
    by (simp add: notification_exists_iff setup_coordinator_def init_coordinator_def)
  have s1: "fst (api_wrapper (uuid4 fresh_env) (http fresh_env) (c1\<lparr>notification_id := None\<rparr>))
             = Inr (PDict testdata_liveweer)"
    using sample_fetch [of "''\"1689469384\"''" "c1\<lparr>notification_id := None\<rparr>"
                           "uuid4 fresh_env" "PStr ''1689469384''"]
    by (simp add: async_get_data_def testdata_response_same [symmetric] testdata_with_same
        fresh_env_def)
  from quota_notice_dismissal_raises
         [where c = c1 and i = "''u1''" and e = fresh_env and d = "PDict testdata_liveweer",
          THEN conjunct2, THEN conjunct2, THEN conjunct2, THEN conjunct2, THEN conjunct1]
       k s1
  have u: "fst (async_update_data fresh_env c1) = Inl UpdateFailed
      \<and> data (snd (async_update_data fresh_env c1)) = None"
    by simp
  from a q c n2 l2 s t f3 f4 k u show ?thesis
    unfolding w0_def w2_def c1_def by simp
qed

text \<open>
  Claim C10. \<open>notification_exists\<close> is a total function to the truth values. It is false
  whenever \<open>notification_id\<close> is \<open>None\<close>, as it is in a new client, and after every
  \<open>_handle_notification_dismissal\<close>; it is false when \<open>hass.data\<close> has nothing under
  \<open>persistent_notification\<close> or something that is not a dict; and it is true only when
  \<open>notification_id\<close> is a key of that dict.
\<close>

theorem notification_exists_total:
  "(notification_id w = None \<longrightarrow> \<not> notification_exists w)
   \<and> (map_of (hass_data w) ''persistent_notification'' = None \<longrightarrow> \<not> notification_exists w)
   \<and> (map_of (hass_data w) ''persistent_notification'' = Some HOther
        \<longrightarrow> \<not> notification_exists w)
   \<and> (notification_exists w
        \<longrightarrow> (\<exists>i ns. notification_id w = Some i
               \<and> map_of (hass_data w) ''persistent_notification'' = Some (HDict ns)
               \<and> i \<in> fst ` set ns))
   \<and> \<not> notification_exists (init_coordinator entry_options hdata)
   \<and> \<not> notification_exists (snd (handle_notification_dismissal w))"
proof (intro conjI impI)
  assume "notification_id w = None"
  then show "\<not> notification_exists w" by (simp add: notification_exists_iff)
next
  assume "map_of (hass_data w) ''persistent_notification'' = None"
  then show "\<not> notification_exists w" by (simp add: notification_exists_iff)
next
  assume "map_of (hass_data w) ''persistent_notification'' = Some HOther"
  then show "\<not> notification_exists w" by (simp add: notification_exists_iff)
next
  assume "notification_exists w"
  then obtain i ns n where
    "notification_id w = Some i"
    "map_of (hass_data w) ''persistent_notification'' = Some (HDict ns)"
    "map_of ns i = Some (Some n)"
    unfolding notification_exists_iff by blast
  moreover from this have "i \<in> fst ` set ns"
    by (force dest: map_of_SomeD)
  ultimately show "\<exists>i ns. notification_id w = Some i
               \<and> map_of (hass_data w) ''persistent_notification'' = Some (HDict ns)
               \<and> i \<in> fst ` set ns"
    by blast
next
  show "\<not> notification_exists (init_coordinator entry_options hdata)"
    by (simp add: notification_exists_iff init_coordinator_def)
next
  show "\<not> notification_exists (snd (handle_notification_dismissal w))"
    by (rule dismissal_gone)
qed

text \<open>A new client, a store that is not a dict, and the client after one quota response.\<close>

theorem notification_exists_total_witness:
  "notification_id (init_coordinator [] []) = None
   \<and> map_of (hass_data (init_coordinator [] [])) ''persistent_notification'' = None
   \<and> \<not> notification_exists (init_coordinator [] [])
   \<and> map_of (hass_data ((init_coordinator [] [])
                \<lparr>hass_data := [(''persistent_notification'', HOther)]\<rparr>))
        ''persistent_notification'' = Some HOther
   \<and> \<not> notification_exists ((init_coordinator [] [])
                \<lparr>hass_data := [(''persistent_notification'', HOther)]\<rparr>)
   \<and> notification_exists (fetches [(''u1'', Response quota_response)] (init_coordinator [] []))
   \<and> notification_id (fetches [(''u1'', Response quota_response)] (init_coordinator [] []))
        = Some ''u1''
   \<and> ''u1'' \<in> fst ` set [(''u1'', Some \<lparr>message =
                      ''Het maximum aantal van 300 API verzoeken per dag voor KNMI is bereikt.'',
                    title = ''API limiet bereikt''\<rparr>)]"
proof -
  have i: "notification_id (init_coordinator [] []) = None
      \<and> map_of (hass_data (init_coordinator [] [])) ''persistent_notification'' = None"
    by (simp add: init_coordinator_def)
  have o: "map_of (hass_data ((init_coordinator [] [])
                \<lparr>hass_data := [(''persistent_notification'', HOther)]\<rparr>))
        ''persistent_notification'' = Some HOther"
    by simp
  have e: "notification_exists (fetches [(''u1'', Response quota_response)] (init_coordinator [] []))"
    using first_quota_world [of "''u1''"] by (simp add: notification_exists_iff)
  show ?thesis
    using notification_exists_total [where w = "init_coordinator [] []"]
          notification_exists_total
            [where w = "(init_coordinator [] [])
                          \<lparr>hass_data := [(''persistent_notification'', HOther)]\<rparr>"]
          notification_exists_total
            [where w = "fetches [(''u1'', Response quota_response)] (init_coordinator [] [])"]
          i o e first_quota_world [of "''u1''"]
    by simp
qed

section \<open>Reading a value\<close>

lemma range_keys:
  "is_range_key ''d1tmin''" "is_range_key ''d1tmax''"
  "is_range_key ''d2tmin''" "is_range_key ''d2tmax''"
  by (simp_all add: is_range_key_def)

lemma split_on_no_sep: "sep \<notin> set t \<Longrightarrow> split_on sep t = [t]"
  by (induction t) auto

lemma split_on_two_has_sep: "split_on sep s = [lo, hi] \<Longrightarrow> sep \<in> set s"
  using split_on_no_sep [of sep s] by auto

lemma midpoint_17_19: "range_value (PStr ''17/19'') = Inr (PFloat 18)"
proof -
  have s: "split_on CHR ''/'' ''17/19'' = [''17'', ''19'']" by simp
  have a: "int_of_str ''17'' = Some 17" by code_simp
  have b: "int_of_str ''19'' = Some 19" by code_simp
  show ?thesis
    by (simp add: range_value_def s unpack_ints_def a b float_overflow_def)
qed

lemma except_value_error_never: "fst (except_value_error r) \<noteq> Inl ValueError"
  by (auto simp: except_value_error_def split: sum.splits)

text \<open>
  What \<open>get_value\<close> does for its caller. It catches ValueError and nothing else, so it
  never raises ValueError. A key that is absent from the snapshot gives \<open>None\<close> and a
  warning. For a key outside the four range keys, and for a string without a slash,
  the result is that of the conversion function on the stored value: its value, or
  \<open>None\<close> with a warning when it raises ValueError (a non-numeric string passed to
  \<open>float\<close>), or its exception when it raises another one. For the four range keys a
  string \<open>lo/hi\<close> of two integers is replaced by the midpoint before the conversion, so
  \<open>17/19\<close> converts to \<open>18.0\<close> under \<open>float\<close> and to \<open>18\<close> under \<open>int\<close>.
\<close>

lemma get_value_catches_value_error:
  "(map_of kvs key = None
      \<longrightarrow> get_value (Some kvs) key convert_to
          = (Inr PNone, [LogWarning ''Value %s is missing in API response'']))
   \<and> fst (get_value dat key convert_to) \<noteq> Inl ValueError
   \<and> (map_of kvs key = Some v
       \<and> (\<not> is_range_key key \<or> (\<exists>s. v = PStr s \<and> CHR ''/'' \<notin> set s))
      \<longrightarrow> get_value (Some kvs) key convert_to = except_value_error (convert_to v))
   \<and> (convert_to v = Inl ValueError
      \<longrightarrow> except_value_error (convert_to v)
          = (Inr PNone, [LogWarning ''Value %s with key %s can't be converted to %s'']))
   \<and> (convert_to v = Inr x \<longrightarrow> except_value_error (convert_to v) = (Inr x, []))
   \<and> (convert_to v = Inl e \<and> e \<noteq> ValueError
      \<longrightarrow> except_value_error (convert_to v) = (Inl e, []))
   \<and> (key \<in> {''d1tmin'', ''d1tmax'', ''d2tmin'', ''d2tmax''}
       \<and> map_of kvs key = Some (PStr s)
       \<and> split_on CHR ''/'' s = [lo, hi] \<and> int_of_str lo = Some a \<and> int_of_str hi = Some b
       \<and> \<not> float_overflow (of_int (a + b) / 2)
      \<longrightarrow> get_value (Some kvs) key convert_to
          = except_value_error (convert_to (PFloat (of_int (a + b) / 2))))
   \<and> (key \<in> {''d1tmin'', ''d1tmax'', ''d2tmin'', ''d2tmax''}
       \<and> map_of kvs key = Some (PStr ''17/19'')
      \<longrightarrow> get_value (Some kvs) key (py_float float_of_str) = (Inr (PFloat 18), [])
          \<and> get_value (Some kvs) key conv_int = (Inr (PInt 18), []))"
proof (intro conjI impI)
  assume "map_of kvs key = None"
  then show "get_value (Some kvs) key convert_to
          = (Inr PNone, [LogWarning ''Value %s is missing in API response''])"
    by (simp add: get_value_def)
next
  show "fst (get_value dat key convert_to) \<noteq> Inl ValueError"
    by (auto simp: get_value_def except_value_error_never split: option.splits)
next
  assume a: "map_of kvs key = Some v
       \<and> (\<not> is_range_key key \<or> (\<exists>s. v = PStr s \<and> CHR ''/'' \<notin> set s))"
  then have "get_value_try v key convert_to = convert_to v"
    by (auto simp: get_value_try_def)
  with a show "get_value (Some kvs) key convert_to = except_value_error (convert_to v)"
    by (simp add: get_value_def)
next
  assume "convert_to v = Inl ValueError"
  then show "except_value_error (convert_to v)
          = (Inr PNone, [LogWarning ''Value %s with key %s can't be converted to %s''])"
    by (simp add: except_value_error_def)
next
  assume "convert_to v = Inr x"
  then show "except_value_error (convert_to v) = (Inr x, [])"
    by (simp add: except_value_error_def)
next
  assume "convert_to v = Inl e \<and> e \<noteq> ValueError"
  then show "except_value_error (convert_to v) = (Inl e, [])"
    by (simp add: except_value_error_def)
next
  assume a: "key \<in> {''d1tmin'', ''d1tmax'', ''d2tmin'', ''d2tmax''}
       \<and> map_of kvs key = Some (PStr s)
       \<and> split_on CHR ''/'' s = [lo, hi] \<and> int_of_str lo = Some a \<and> int_of_str hi = Some b
       \<and> \<not> float_overflow (of_int (a + b) / 2)"
  then have k: "is_range_key key" using range_keys by auto
  have m: "CHR ''/'' \<in> set s" using a split_on_two_has_sep by blast
  have "get_value_try (PStr s) key convert_to = convert_to (PFloat (of_int (a + b) / 2))"
    using a k m by (simp add: get_value_try_def range_value_def unpack_ints_def)
  with a show "get_value (Some kvs) key convert_to
          = except_value_error (convert_to (PFloat (of_int (a + b) / 2)))"
    by (simp add: get_value_def)
next
  assume a: "key \<in> {''d1tmin'', ''d1tmax'', ''d2tmin'', ''d2tmax''}
       \<and> map_of kvs key = Some (PStr ''17/19'')"
  then have k: "is_range_key key" using range_keys by auto
  have t: "get_value_try (PStr ''17/19'') key convert = convert (PFloat 18)" for convert
    using k by (simp add: get_value_try_def midpoint_17_19)
  have i: "conv_int (PFloat 18) = Inr (PInt 18)"
    by (simp add: conv_int_def py_trunc_def)
  show "get_value (Some kvs) key (py_float float_of_str) = (Inr (PFloat 18), [])"
    using a by (simp add: get_value_def t except_value_error_def)
  show "get_value (Some kvs) key conv_int = (Inr (PInt 18), [])"
    using a by (simp add: get_value_def t i except_value_error_def)
qed

text \<open>
  A key that the sample payload lacks, a word passed to \<open>int\<close>, a \<open>None\<close> passed to
  \<open>float\<close>, and the range \<open>17/19\<close>.
\<close>

lemma get_value_catches_value_error_examples:
  "map_of testdata_liveweer ''neerslagint'' = None
   \<and> get_value (Some testdata_liveweer) ''neerslagint'' conv_int
       = (Inr PNone, [LogWarning ''Value %s is missing in API response''])
   \<and> map_of [(''temp'', PStr ''mild'')] ''temp'' = Some (PStr ''mild'')
   \<and> \<not> is_range_key ''temp''
   \<and> conv_int (PStr ''mild'') = Inl ValueError
   \<and> get_value (Some [(''temp'', PStr ''mild'')]) ''temp'' conv_int
       = (Inr PNone, [LogWarning ''Value %s with key %s can't be converted to %s''])
   \<and> py_float (\<lambda>s. None) PNone = Inl TypeError
   \<and> get_value (Some [(''temp'', PNone)]) ''temp'' (py_float (\<lambda>s. None)) = (Inl TypeError, [])
   \<and> ''d1tmin'' \<in> {''d1tmin'', ''d1tmax'', ''d2tmin'', ''d2tmax''}
   \<and> map_of [(''d1tmin'', PStr ''17/19'')] ''d1tmin'' = Some (PStr ''17/19'')
   \<and> get_value (Some [(''d1tmin'', PStr ''17/19'')]) ''d1tmin'' (py_float (\<lambda>s. None))
       = (Inr (PFloat 18), [])"
proof -
  have m: "map_of testdata_liveweer ''neerslagint'' = None"
    by (simp add: testdata_liveweer_def)
  have r: "\<not> is_range_key ''temp''" by (simp add: is_range_key_def)
  have c: "conv_int (PStr ''mild'') = Inl ValueError"
    by (simp add: conv_int_def int_of_str_def strip_def is_space_def is_digit_def)
  show ?thesis
    using get_value_catches_value_error
            [where kvs = testdata_liveweer and key = "''neerslagint''" and convert_to = conv_int]
          get_value_catches_value_error
            [where kvs = "[(''temp'', PStr ''mild'')]" and key = "''temp''"
               and convert_to = conv_int and v = "PStr ''mild''"]
          get_value_catches_value_error
            [where kvs = "[(''temp'', PNone)]" and key = "''temp''"
               and convert_to = "py_float (\<lambda>s. None)" and v = PNone and e = TypeError]
          get_value_catches_value_error
            [where kvs = "[(''d1tmin'', PStr ''17/19'')]" and key = "''d1tmin''"
               and float_of_str = "\<lambda>s. None"]
          m r c
    by simp
qed

text \<open>
  Claim C2, on the code. \<open>get_value\<close> does raise to its caller. For one of the four
  range keys whose stored value is no string, list or dict (a number, as the snapshot's
  field types declare, or \<open>None\<close>), the test \<open>"/" in value\<close> raises TypeError before
  any conversion is tried, whatever the conversion function; and for every key, an
  exception of the conversion function that is no ValueError (the TypeError of
  \<open>float(None)\<close>) is not caught.
\<close>

theorem get_value_raises_type_error:
  "(is_range_key key \<and> map_of kvs key = Some v
      \<and> (\<forall>s. v \<noteq> PStr s) \<and> (\<forall>xs. v \<noteq> PList xs) \<and> (\<forall>d. v \<noteq> PDict d)
     \<longrightarrow> get_value (Some kvs) key convert_to = (Inl TypeError, []))
   \<and> (\<not> is_range_key key \<and> map_of kvs key = Some v
      \<and> convert_to v = Inl e \<and> e \<noteq> ValueError
     \<longrightarrow> get_value (Some kvs) key convert_to = (Inl e, []))"
proof (intro conjI impI)
  assume a: "is_range_key key \<and> map_of kvs key = Some v
      \<and> (\<forall>s. v \<noteq> PStr s) \<and> (\<forall>xs. v \<noteq> PList xs) \<and> (\<forall>d. v \<noteq> PDict d)"
  then have "slash_in v = Inl TypeError" by (cases v) simp_all
  with a have "get_value_try v key convert_to = Inl TypeError"
    by (simp add: get_value_try_def)
  with a show "get_value (Some kvs) key convert_to = (Inl TypeError, [])"
    by (simp add: get_value_def except_value_error_def)
next
  assume a: "\<not> is_range_key key \<and> map_of kvs key = Some v
      \<and> convert_to v = Inl e \<and> e \<noteq> ValueError"
  then have "get_value_try v key convert_to = Inl e"
    by (simp add: get_value_try_def)
  with a show "get_value (Some kvs) key convert_to = (Inl e, [])"
    by (simp add: get_value_def except_value_error_def)
qed

text \<open>
  The forecast minimum stored as the number 14 and read with \<open>int\<close>, which would
  convert it; and a temperature of \<open>None\<close> read with \<open>float\<close>.
\<close>

theorem get_value_raises_type_error_witness:
  "is_range_key ''d1tmin''
   \<and> map_of [(''d1tmin'', PInt 14)] ''d1tmin'' = Some (PInt 14)
   \<and> conv_int (PInt 14) = Inr (PInt 14)
   \<and> get_value (Some [(''d1tmin'', PInt 14)]) ''d1tmin'' conv_int = (Inl TypeError, [])
   \<and> \<not> is_range_key ''temp''
   \<and> map_of [(''temp'', PNone)] ''temp'' = Some PNone
   \<and> py_float (\<lambda>s. None) PNone = Inl TypeError
   \<and> get_value (Some [(''temp'', PNone)]) ''temp'' (py_float (\<lambda>s. None)) = (Inl TypeError, [])"
proof -
  have r: "is_range_key ''d1tmin''" "\<not> is_range_key ''temp''"
    by (simp_all add: is_range_key_def)
  have c: "conv_int (PInt 14) = Inr (PInt 14)" by (simp add: conv_int_def)
  show ?thesis
    using get_value_raises_type_error
            [where key = "''d1tmin''" and kvs = "[(''d1tmin'', PInt 14)]" and v = "PInt 14"
               and convert_to = conv_int]
          get_value_raises_type_error
            [where key = "''temp''" and kvs = "[(''temp'', PNone)]" and v = PNone
               and convert_to = "py_float (\<lambda>s. None)" and e = TypeError]
          r c
    by simp
qed

end
